theory Spec2Isabelle
  imports Complex_Main "HOL-Library.AList"
begin

section \<open>Time values\<close>

text \<open>
  A JavaScript \<open>Date\<close> is its time value: the number of milliseconds since the epoch,
  an integer. \<open>new Date()\<close> and \<open>Date.now()\<close> read the clock; every clock reading is
  an argument of the function that makes it. Time values are taken inside the range in
  which a \<open>Date\<close> is valid and a difference of two of them, divided by one day, stays
  below \<open>2 ^ 27\<close>: there the double-precision quotient under \<open>Math.ceil\<close> has the
  ceiling of the exact quotient.
\<close>

type_synonym time = int

definition msPerDay :: int where
  "msPerDay = 1000 * 60 * 60 * 24"

section \<open>models/Documents.js\<close>

datatype doc_status = Valid | Expiring | Expired

text \<open>The schema's \<open>enum: ['valid', 'expiring', 'expired']\<close> on the string path \<open>status\<close>.\<close>

definition status_of_string :: "string \<Rightarrow> doc_status option" where
  "status_of_string s =
     (if s = ''valid'' then Some Valid
      else if s = ''expiring'' then Some Expiring
      else if s = ''expired'' then Some Expired
      else None)"

record document =
  d_user :: nat
  d_country :: string
  d_type :: string
  d_number :: string
  d_issueDate :: "time option"
  d_expiryDate :: time
  d_status :: doc_status
  d_createdAt :: time

text \<open>\<open>Math.ceil((expiry - today) / (1000 * 60 * 60 * 24))\<close>\<close>

definition daysUntilExpiry :: "time \<Rightarrow> time \<Rightarrow> int" where
  "daysUntilExpiry expiry today = \<lceil>real_of_int (expiry - today) / real_of_int msPerDay\<rceil>"

text \<open>
  The \<open>pre('save')\<close> hook of the schema; \<open>today\<close> is the hook's own reading of the clock.
\<close>

definition preSave :: "time \<Rightarrow> document \<Rightarrow> document" where
  "preSave today doc =
     (let days = daysUntilExpiry (d_expiryDate doc) today in
      if days < 0 then doc\<lparr>d_status := Expired\<rparr>
      else if days \<le> 30 then doc\<lparr>d_status := Expiring\<rparr>
      else doc\<lparr>d_status := Valid\<rparr>)"

section \<open>The document collection\<close>

text \<open>
  A collection is the list of its entries, each under its \<open>_id\<close>. \<open>findById\<close> is the
  lookup, a new entry gets an id that no entry has, and \<open>save\<close> of a loaded document
  runs the \<open>pre('save')\<close> hook and writes the result back under its id.
\<close>

type_synonym 'a collection = "(nat \<times> 'a) list"

definition findById :: "'a collection \<Rightarrow> nat \<Rightarrow> 'a option" where
  "findById c i = map_of c i"

definition fresh_id :: "'a collection \<Rightarrow> nat" where
  "fresh_id c = Suc (fold max (map fst c) 0)"

definition insert_new :: "'a collection \<Rightarrow> 'a \<Rightarrow> 'a collection" where
  "insert_new c x = c @ [(fresh_id c, x)]"

definition save :: "time \<Rightarrow> document collection \<Rightarrow> nat \<Rightarrow> document \<Rightarrow> document \<times> document collection" where
  "save today c i doc = (let doc' = preSave today doc in (doc', AList.update i doc' c))"

section \<open>Requests and replies\<close>

text \<open>
  A field of a JSON body is absent, present with a value that the schema type cannot
  cast (\<open>Malformed\<close>), or present with a value.
\<close>

datatype 'a field = Absent | Malformed | Given 'a

text \<open>\<open>res.status(code).json({ success, message, ... })\<close>, with the entity it carries.\<close>

datatype 'a reply = Reply (code: nat) (success: bool) (message: "string option") (body: "'a option")

record doc_body =
  body_user :: "nat field"
  body_country :: "string field"
  body_type :: "string field"
  body_number :: "string field"
  body_issueDate :: "time field"
  body_expiryDate :: "time field"
  body_status :: "string field"
  body_createdAt :: "time field"

section \<open>controllers/documentsControllers.js\<close>

text \<open>
  Mongoose validation of a new document: a \<open>required\<close> path must be present and, for a
  string, not empty; a present path must cast; \<open>status\<close> must be in the enum and defaults
  to \<open>'valid'\<close>; \<open>createdAt\<close> defaults to \<open>Date.now\<close>. \<open>None\<close> is the ValidationError.
\<close>

definition required_string :: "string field \<Rightarrow> string option" where
  "required_string f = (case f of Given s \<Rightarrow> (if s = [] then None else Some s) | _ \<Rightarrow> None)"

definition required_field :: "'a field \<Rightarrow> 'a option" where
  "required_field f = (case f of Given x \<Rightarrow> Some x | _ \<Rightarrow> None)"

definition optional_field :: "'a field \<Rightarrow> 'a option option" where
  "optional_field f = (case f of Absent \<Rightarrow> Some None | Malformed \<Rightarrow> None | Given x \<Rightarrow> Some (Some x))"

definition cast_status :: "string field \<Rightarrow> doc_status option option" where
  "cast_status f =
     (case f of Absent \<Rightarrow> Some None | Malformed \<Rightarrow> None
      | Given s \<Rightarrow> (case status_of_string s of None \<Rightarrow> None | Some st \<Rightarrow> Some (Some st)))"

definition new_document :: "time \<Rightarrow> doc_body \<Rightarrow> document option" where
  "new_document now b =
     (case required_field (body_user b) of None \<Rightarrow> None | Some u \<Rightarrow>
     (case required_string (body_country b) of None \<Rightarrow> None | Some c \<Rightarrow>
     (case required_string (body_type b) of None \<Rightarrow> None | Some t \<Rightarrow>
     (case required_string (body_number b) of None \<Rightarrow> None | Some n \<Rightarrow>
     (case optional_field (body_issueDate b) of None \<Rightarrow> None | Some i \<Rightarrow>
     (case required_field (body_expiryDate b) of None \<Rightarrow> None | Some e \<Rightarrow>
     (case cast_status (body_status b) of None \<Rightarrow> None | Some st \<Rightarrow>
     (case optional_field (body_createdAt b) of None \<Rightarrow> None | Some ca \<Rightarrow>
        Some \<lparr>d_user = u, d_country = c, d_type = t, d_number = n, d_issueDate = i,
              d_expiryDate = e, d_status = (case st of None \<Rightarrow> Valid | Some s \<Rightarrow> s),
              d_createdAt = (case ca of None \<Rightarrow> now | Some x \<Rightarrow> x)\<rparr>))))))))"

text \<open>
  \<open>Document.create(body)\<close>: build and validate the document, run the \<open>pre('save')\<close>
  hook, insert. Validation is the first of the save hooks, so an invalid body never
  reaches the status computation.
\<close>

definition create_document ::
  "time \<Rightarrow> time \<Rightarrow> document collection \<Rightarrow> doc_body \<Rightarrow> (document \<times> document collection) option" where
  "create_document now today c b =
     (case new_document now b of None \<Rightarrow> None
      | Some doc \<Rightarrow> (let doc' = preSave today doc in Some (doc', insert_new c doc')))"

text \<open>\<open>exports.addDocument\<close>: \<open>req.body.user = req.user.id\<close>, then \<open>Document.create\<close>.\<close>

definition addDocument ::
  "time \<Rightarrow> time \<Rightarrow> document collection \<Rightarrow> nat \<Rightarrow> doc_body \<Rightarrow> document reply \<times> document collection" where
  "addDocument now today c uid b =
     (case create_document now today c (b\<lparr>body_user := Given uid\<rparr>) of
        None \<Rightarrow> (Reply 500 False (Some ''Server error. Please try again.'') None, c)
      | Some (doc, c') \<Rightarrow> (Reply 201 True (Some ''Document added successfully'') (Some doc), c'))"

text \<open>
  \<open>Document.findByIdAndUpdate(id, body, { new: true, runValidators: true })\<close>: every
  path present in the body is cast and set on the stored document, the validators of
  the paths being set are run, and the updated document is returned. It is a query:
  Mongoose runs no \<open>save\<close> hook for it. \<open>None\<close> is the CastError or ValidationError.
\<close>

definition field_casts :: "'a field \<Rightarrow> bool" where
  "field_casts f = (case f of Malformed \<Rightarrow> False | _ \<Rightarrow> True)"

definition string_valid :: "string field \<Rightarrow> bool" where
  "string_valid f = (case f of Absent \<Rightarrow> True | Malformed \<Rightarrow> False | Given s \<Rightarrow> s \<noteq> [])"

definition valid_update :: "doc_body \<Rightarrow> bool" where
  "valid_update b =
     (field_casts (body_user b) \<and> string_valid (body_country b) \<and> string_valid (body_type b) \<and>
      string_valid (body_number b) \<and> field_casts (body_issueDate b) \<and>
      field_casts (body_expiryDate b) \<and> cast_status (body_status b) \<noteq> None \<and>
      field_casts (body_createdAt b))"

definition set_field :: "'a field \<Rightarrow> 'a \<Rightarrow> 'a" where
  "set_field f old = (case f of Given x \<Rightarrow> x | _ \<Rightarrow> old)"

definition set_status :: "string field \<Rightarrow> doc_status \<Rightarrow> doc_status" where
  "set_status f old =
     (case f of Given s \<Rightarrow> (case status_of_string s of Some st \<Rightarrow> st | None \<Rightarrow> old) | _ \<Rightarrow> old)"

definition apply_update :: "doc_body \<Rightarrow> document \<Rightarrow> document" where
  "apply_update b doc =
     \<lparr>d_user = set_field (body_user b) (d_user doc),
      d_country = set_field (body_country b) (d_country doc),
      d_type = set_field (body_type b) (d_type doc),
      d_number = set_field (body_number b) (d_number doc),
      d_issueDate = (case body_issueDate b of Given x \<Rightarrow> Some x | _ \<Rightarrow> d_issueDate doc),
      d_expiryDate = set_field (body_expiryDate b) (d_expiryDate doc),
      d_status = set_status (body_status b) (d_status doc),
      d_createdAt = set_field (body_createdAt b) (d_createdAt doc)\<rparr>"

definition findByIdAndUpdate ::
  "document collection \<Rightarrow> nat \<Rightarrow> doc_body \<Rightarrow> (document option \<times> document collection) option" where
  "findByIdAndUpdate c i b =
     (if \<not> valid_update b then None
      else case findById c i of
        None \<Rightarrow> Some (None, c)
      | Some doc \<Rightarrow> (let doc' = apply_update b doc in Some (Some doc', AList.update i doc' c)))"

text \<open>\<open>exports.updateDocument\<close>, for the requester \<open>uid\<close> and the document id of the route.\<close>

definition updateDocument ::
  "document collection \<Rightarrow> nat \<Rightarrow> nat \<Rightarrow> doc_body \<Rightarrow> document reply \<times> document collection" where
  "updateDocument c uid i b =
     (case findById c i of
        None \<Rightarrow> (Reply 404 False (Some ''Document not found'') None, c)
      | Some document \<Rightarrow>
          if d_user document \<noteq> uid
          then (Reply 401 False (Some ''Not authorized to update this document'') None, c)
          else (case findByIdAndUpdate c i b of
                  None \<Rightarrow> (Reply 500 False (Some ''Server error. Please try again.'') None, c)
                | Some (document', c') \<Rightarrow>
                    (Reply 200 True (Some ''Document updated successfully'') document', c')))"

section \<open>Date.prototype.getFullYear and setFullYear\<close>

text \<open>
  The abstract operations of ECMAScript on time values. \<open>YearFromDay\<close> computes the year
  of a day number through the 400, 100, 4 and 1 year cycles that begin on 1 January 1601;
  \<open>MakeDay\<close> is taken at a month index already within \<open>0..11\<close>, as \<open>setFullYear\<close> calls it.
\<close>

definition Day :: "time \<Rightarrow> int" where
  "Day t = t div msPerDay"

definition TimeWithinDay :: "time \<Rightarrow> int" where
  "TimeWithinDay t = t mod msPerDay"

definition DaysInYear :: "int \<Rightarrow> int" where
  "DaysInYear y =
     (if y mod 4 \<noteq> 0 then 365 else if y mod 100 \<noteq> 0 then 366
      else if y mod 400 \<noteq> 0 then 365 else 366)"

definition leapDays :: "int \<Rightarrow> int" where
  "leapDays y = (if DaysInYear y = 366 then 1 else 0)"

definition DayFromYear :: "int \<Rightarrow> int" where
  "DayFromYear y = 365 * (y - 1970) + (y - 1969) div 4 - (y - 1901) div 100 + (y - 1601) div 400"

definition YearFromDay :: "int \<Rightarrow> int" where
  "YearFromDay d =
     (let n = d - DayFromYear 1601;
          q400 = n div 146097; r400 = n mod 146097;
          q100 = min (r400 div 36524) 3; r100 = r400 - q100 * 36524;
          q4 = r100 div 1461; r4 = r100 mod 1461;
          q1 = min (r4 div 365) 3
      in 1601 + 400 * q400 + 100 * q100 + 4 * q4 + q1)"

definition YearFromTime :: "time \<Rightarrow> int" where
  "YearFromTime t = YearFromDay (Day t)"

definition InLeapYear :: "time \<Rightarrow> int" where
  "InLeapYear t = leapDays (YearFromTime t)"

definition DayWithinYear :: "time \<Rightarrow> int" where
  "DayWithinYear t = Day t - DayFromYear (YearFromTime t)"

text \<open>The month of a day within the year, by the table of \<open>MonthFromTime\<close>.\<close>

definition monthOfDay :: "int \<Rightarrow> int \<Rightarrow> int" where
  "monthOfDay d leap =
     (if d < 31 then 0
      else if d < 59 + leap then 1
      else if d < 90 + leap then 2
      else if d < 120 + leap then 3
      else if d < 151 + leap then 4
      else if d < 181 + leap then 5
      else if d < 212 + leap then 6
      else if d < 243 + leap then 7
      else if d < 273 + leap then 8
      else if d < 304 + leap then 9
      else if d < 334 + leap then 10
      else 11)"

definition MonthFromTime :: "time \<Rightarrow> int" where
  "MonthFromTime t = monthOfDay (DayWithinYear t) (InLeapYear t)"

text \<open>The day within the year on which month \<open>m\<close> begins, in a year with \<open>leap\<close> leap days.\<close>

definition monthStart :: "int \<Rightarrow> int \<Rightarrow> int" where
  "monthStart m leap =
     (if m = 0 then 0
      else if m = 1 then 31
      else if m = 2 then 59 + leap
      else if m = 3 then 90 + leap
      else if m = 4 then 120 + leap
      else if m = 5 then 151 + leap
      else if m = 6 then 181 + leap
      else if m = 7 then 212 + leap
      else if m = 8 then 243 + leap
      else if m = 9 then 273 + leap
      else if m = 10 then 304 + leap
      else 334 + leap)"

definition DateFromTime :: "time \<Rightarrow> int" where
  "DateFromTime t = DayWithinYear t - monthStart (MonthFromTime t) (InLeapYear t) + 1"

definition MakeDay :: "int \<Rightarrow> int \<Rightarrow> int \<Rightarrow> int" where
  "MakeDay year month date =
     DayFromYear year + monthStart month (leapDays year) + date - 1"

definition MakeDate :: "int \<Rightarrow> int \<Rightarrow> time" where
  "MakeDate day tm = day * msPerDay + tm"

text \<open>
  The time zone of the process: the offset of local time from UTC in milliseconds, at a
  UTC time value and at a local time value.
\<close>

record timezone =
  offsetAtUTC :: "time \<Rightarrow> int"
  offsetAtLocal :: "time \<Rightarrow> int"

definition LocalTime :: "timezone \<Rightarrow> time \<Rightarrow> time" where
  "LocalTime z t = t + offsetAtUTC z t"

definition UTC :: "timezone \<Rightarrow> time \<Rightarrow> time" where
  "UTC z t = t - offsetAtLocal z t"

definition getFullYear :: "timezone \<Rightarrow> time \<Rightarrow> int" where
  "getFullYear z t = YearFromTime (LocalTime z t)"

definition setFullYear :: "timezone \<Rightarrow> time \<Rightarrow> int \<Rightarrow> time" where
  "setFullYear z t year =
     (let lt = LocalTime z t;
          newDate = MakeDay year (MonthFromTime lt) (DateFromTime lt)
      in UTC z (MakeDate newDate (TimeWithinDay lt)))"

definition utc_zone :: timezone where
  "utc_zone = \<lparr>offsetAtUTC = (\<lambda>t. 0), offsetAtLocal = (\<lambda>t. 0)\<rparr>"


section \<open>models/Payment.js and controllers/paymentController.js\<close>

record payment =
  p_user :: nat
  p_document :: nat
  p_type :: string
  p_amount :: int
  p_currency :: string
  p_paystackReference :: string
  p_paystackTransactionId :: string
  p_status :: string
  p_date :: time

text \<open>
  What \<open>axios.get\<close> on the gateway's verify URL gives: it throws (\<open>GatewayError\<close>: no
  answer, or an answer outside 2xx), or it returns the transaction in \<open>data.data\<close>.
\<close>

record gateway_data =
  g_status :: string
  g_amount :: "int option"
  g_currency :: "string option"
  g_id :: string

datatype gateway_result = GatewayError | GatewayData gateway_data

text \<open>The two collections the handler works on.\<close>

record store =
  payments :: "payment list"
  documents :: "document collection"

text \<open>
  The request: \<open>req.user.id\<close>, and \<open>reference\<close> and \<open>documentId\<close> of the body. A
  \<open>documentId\<close> that is absent or is not an ObjectId is \<open>None\<close>.
\<close>

record verify_request =
  vr_user :: nat
  vr_reference :: string
  vr_documentId :: "nat option"

text \<open>
  The environment of one call: the secret key of the process, its time zone, the answer
  of the gateway, and the three readings of the clock, in the order the handler makes
  them: the default \<open>date\<close> of the new payment, \<open>now\<close> of the handler and \<open>today\<close> of
  the save hook.
\<close>

record verify_env =
  secretKey :: "string option"
  zone :: timezone
  paystackRes :: gateway_result
  clk_paid :: time
  clk_now :: time
  clk_today :: time

text \<open>
  \<open>Payment.create\<close>: \<open>document\<close>, \<open>amount\<close> and \<open>paystackReference\<close> are required (a
  required string is not empty), \<open>currency\<close> defaults to \<open>'NGN'\<close> and \<open>type\<close> to
  \<open>'renewal'\<close>. \<open>None\<close> is the ValidationError.
\<close>

definition new_payment :: "time \<Rightarrow> verify_request \<Rightarrow> gateway_data \<Rightarrow> payment option" where
  "new_payment paid req data =
     (case vr_documentId req of None \<Rightarrow> None | Some d \<Rightarrow>
     (case g_amount data of None \<Rightarrow> None | Some a \<Rightarrow>
       if vr_reference req = [] then None
       else Some \<lparr>p_user = vr_user req, p_document = d, p_type = ''renewal'', p_amount = a,
                  p_currency = (case g_currency data of None \<Rightarrow> ''NGN'' | Some c \<Rightarrow> c),
                  p_paystackReference = vr_reference req, p_paystackTransactionId = g_id data,
                  p_status = ''success'', p_date = paid\<rparr>))"

text \<open>\<open>Payment.findOne({ paystackReference: reference })\<close>\<close>

definition findPayment :: "payment list \<Rightarrow> string \<Rightarrow> payment option" where
  "findPayment ps reference = find (\<lambda>p. p_paystackReference p = reference) ps"

text \<open>
  The new expiry date: one year from \<open>now\<close> if the old date is past, one year from the
  old date otherwise.
\<close>

definition extendedExpiry :: "timezone \<Rightarrow> time \<Rightarrow> time \<Rightarrow> time" where
  "extendedExpiry z oldDate now =
     (if oldDate < now then setFullYear z now (getFullYear z now + 1)
      else setFullYear z oldDate (getFullYear z oldDate + 1))"

text \<open>\<open>exports.verifyPayment\<close>. Every exception ends in the \<open>catch\<close>: reply 500.\<close>

definition verification_failed :: "document reply" where
  "verification_failed = Reply 500 False (Some ''Verification failed'') None"

definition verifyPayment :: "verify_env \<Rightarrow> store \<Rightarrow> verify_request \<Rightarrow> document reply \<times> store" where
  "verifyPayment env s req =
     (if secretKey env = None \<or> secretKey env = Some [] then (verification_failed, s)
      else case paystackRes env of
        GatewayError \<Rightarrow> (verification_failed, s)
      | GatewayData data \<Rightarrow>
          if g_status data \<noteq> ''success''
          then (Reply 400 False (Some ''Payment verification failed'') None, s)
          else (case findPayment (payments s) (vr_reference req) of
            Some existingPayment \<Rightarrow> (Reply 200 True (Some ''Already processed'') None, s)
          | None \<Rightarrow>
              (case new_payment (clk_paid env) req data of
                None \<Rightarrow> (verification_failed, s)
              | Some p \<Rightarrow>
                  (let s1 = s\<lparr>payments := payments s @ [p]\<rparr> in
                   case findById (documents s1) (p_document p) of
                     None \<Rightarrow> (Reply 404 False (Some ''Document not found'') None, s1)
                   | Some document \<Rightarrow>
                       (let newDate = extendedExpiry (zone env) (d_expiryDate document) (clk_now env);
                            saved = save (clk_today env) (documents s1) (p_document p)
                                      (document\<lparr>d_expiryDate := newDate, d_status := Valid\<rparr>)
                        in (Reply 200 True None (Some (fst saved)), s1\<lparr>documents := snd saved\<rparr>))))))"

text \<open>
  The gateway confirms the transaction of a call: the key is configured, the request to
  the gateway returns, and its status is \<open>'success'\<close>.
\<close>

definition gateway_confirms :: "verify_env \<Rightarrow> bool" where
  "gateway_confirms env =
     (secretKey env \<noteq> None \<and> secretKey env \<noteq> Some [] \<and>
      (case paystackRes env of GatewayError \<Rightarrow> False | GatewayData data \<Rightarrow> g_status data = ''success''))"

definition already_processed :: "document reply" where
  "already_processed = Reply 200 True (Some ''Already processed'') None"


section \<open>models/Booking.js and controllers/bookingController.js\<close>

datatype booking_status = Pending | Confirmed | Completed | Cancelled

record booking =
  b_user :: nat
  b_date :: time
  b_startTime :: string
  b_lessonType :: string
  b_status :: booking_status
  b_notes :: "string option"
  b_createdAt :: time

text \<open>
  A value of the body that \<open>createBooking\<close> puts into the filter of \<open>Booking.findOne\<close>
  and into the new booking. It is absent (or \<open>null\<close>); or it does not cast, so that the
  query throws; or it casts to a value of the path's type (\<open>Plain\<close>); or it is an object
  of query operators whose operands cast, or an array of several values, which the query
  applies as a condition on the stored value and which does not cast to a value of the
  path (\<open>Operators\<close>, with the condition).
\<close>

datatype 'a filter_value = NoValue | Uncastable | Plain 'a | Operators "'a \<Rightarrow> bool"

definition throws :: "'a filter_value \<Rightarrow> bool" where
  "throws v = (case v of Uncastable \<Rightarrow> True | _ \<Rightarrow> False)"

definition matches :: "'a filter_value \<Rightarrow> 'a \<Rightarrow> bool" where
  "matches v stored =
     (case v of NoValue \<Rightarrow> False | Uncastable \<Rightarrow> False | Plain x \<Rightarrow> stored = x
      | Operators condition \<Rightarrow> condition stored)"

definition required_value :: "'a filter_value \<Rightarrow> 'a option" where
  "required_value v = (case v of Plain x \<Rightarrow> Some x | _ \<Rightarrow> None)"

definition plain :: "'a filter_value \<Rightarrow> bool" where
  "plain v = (case v of Operators condition \<Rightarrow> False | _ \<Rightarrow> True)"

text \<open>\<open>const { date, startTime, lessonType, notes } = req.body\<close>\<close>

record booking_body =
  bb_date :: "time filter_value"
  bb_startTime :: "string filter_value"
  bb_lessonType :: "string field"
  bb_notes :: "string field"

definition lessonTypes :: "string list" where
  "lessonTypes =
     [''Standard Lesson'', ''Highway Logic'', ''Parking Mastery'', ''Night Driving'',
      ''Test Preparation'']"

text \<open>
  The filter of \<open>Booking.findOne\<close> in \<open>createBooking\<close>: the owner is the requester, the
  date and the start time match what the body gives, and the status is other than
  \<open>'cancelled'\<close>.
\<close>

definition slot_taken :: "nat \<Rightarrow> time filter_value \<Rightarrow> string filter_value \<Rightarrow> booking \<Rightarrow> bool" where
  "slot_taken uid date startTime b =
     (b_user b = uid \<and> matches date (b_date b) \<and> matches startTime (b_startTime b) \<and>
      b_status b \<noteq> Cancelled)"

text \<open>
  \<open>Booking.create\<close>: \<open>date\<close> and \<open>startTime\<close> are required, \<open>lessonType\<close> is in the enum and
  defaults to \<open>'Standard Lesson'\<close>, \<open>notes\<close> has at most 500 characters, \<open>status\<close> defaults
  to \<open>'confirmed'\<close> and \<open>createdAt\<close> to \<open>Date.now\<close>. \<open>None\<close> is the ValidationError.
\<close>

definition new_booking :: "time \<Rightarrow> nat \<Rightarrow> booking_body \<Rightarrow> booking option" where
  "new_booking now uid b =
     (case required_value (bb_date b) of None \<Rightarrow> None | Some d \<Rightarrow>
     (case required_value (bb_startTime b) of None \<Rightarrow> None | Some t \<Rightarrow>
     if t = [] then None else
     (case optional_field (bb_lessonType b) of None \<Rightarrow> None | Some l \<Rightarrow>
     (case optional_field (bb_notes b) of None \<Rightarrow> None | Some n \<Rightarrow>
       if (case l of None \<Rightarrow> False | Some x \<Rightarrow> x \<notin> set lessonTypes) then None
       else if (case n of None \<Rightarrow> False | Some x \<Rightarrow> 500 < length x) then None
       else Some \<lparr>b_user = uid, b_date = d, b_startTime = t,
                  b_lessonType = (case l of None \<Rightarrow> ''Standard Lesson'' | Some x \<Rightarrow> x),
                  b_status = Confirmed, b_notes = n, b_createdAt = now\<rparr>))))"

definition server_error :: "'a reply" where
  "server_error = Reply 500 False (Some ''Server Error'') None"

text \<open>
  \<open>exports.createBooking\<close>. A \<open>date\<close> or \<open>startTime\<close> that does not cast makes the query
  of \<open>findOne\<close> throw.
\<close>

definition createBooking ::
  "time \<Rightarrow> booking collection \<Rightarrow> nat \<Rightarrow> booking_body \<Rightarrow> booking reply \<times> booking collection" where
  "createBooking now c uid b =
     (if throws (bb_date b) \<or> throws (bb_startTime b) then (server_error, c)
      else case find (\<lambda>e. slot_taken uid (bb_date b) (bb_startTime b) (snd e)) c of
        Some existingBooking \<Rightarrow>
          (Reply 400 False (Some ''You already have a booking at this time'') None, c)
      | None \<Rightarrow>
          (case new_booking now uid b of
             None \<Rightarrow> (server_error, c)
           | Some booking \<Rightarrow> (Reply 201 True None (Some booking), insert_new c booking)))"

text \<open>
  \<open>exports.cancelBooking\<close>, for the requester \<open>uid\<close> and the booking id of the route;
  \<open>findByIdAndUpdate\<close> sets \<open>status\<close> to \<open>'cancelled'\<close> on the stored booking.
\<close>

definition cancelBooking ::
  "booking collection \<Rightarrow> nat \<Rightarrow> nat \<Rightarrow> booking reply \<times> booking collection" where
  "cancelBooking c uid i =
     (case findById c i of
        None \<Rightarrow> (Reply 404 False (Some ''Booking not found'') None, c)
      | Some booking \<Rightarrow>
          if b_user booking \<noteq> uid
          then (Reply 401 False (Some ''Not authorized to cancel this booking'') None, c)
          else (let booking' = booking\<lparr>b_status := Cancelled\<rparr>
                in (Reply 200 True None (Some booking'), AList.update i booking' c)))"

text \<open>The bookings of an owner at a slot that are not cancelled.\<close>

definition active_at :: "booking collection \<Rightarrow> nat \<Rightarrow> time \<Rightarrow> string \<Rightarrow> booking collection" where
  "active_at c uid date startTime =
     filter (\<lambda>e. slot_taken uid (Plain date) (Plain startTime) (snd e)) c"

section \<open>middleware/auth.js\<close>

record subscription =
  endpoint :: string
  keys :: string
  enabled :: bool

record user =
  u_fullName :: string
  u_email :: string
  u_pushSubscriptions :: "subscription list"



text \<open>\<open>s.split(sep)\<close> for a separator of one character.\<close>

fun split :: "char \<Rightarrow> string \<Rightarrow> string list" where
  "split sep [] = [[]]"
| "split sep (x # xs) =
     (if x = sep then [] # split sep xs
      else (case split sep xs of [] \<Rightarrow> [[x]] | w # ws \<Rightarrow> (x # w) # ws))"










section \<open>server.js: the notification scan\<close>

text \<open>The payload of a push message, before \<open>JSON.stringify\<close>.\<close>

record notification =
  title :: string
  n_body :: string

text \<open>
  One call of \<open>webpush.sendNotification\<close>: the endpoint and keys it is sent to, the
  payload, and whether the call returned (\<open>True\<close>) or threw.
\<close>

record attempt =
  a_endpoint :: string
  a_keys :: string
  a_payload :: notification
  a_delivered :: bool

text \<open>
  The environment of one scan: \<open>now\<close> is \<open>new Date()\<close> at its start and \<open>dateNow\<close> is
  \<open>Date.now()\<close>, read after the first query; \<open>soonDays\<close> is the value of
  \<open>parseInt(process.env.EXPIRY_SOON_DAYS || "30", 10)\<close>, an integer or, when the text
  does not begin with a number, \<open>NaN\<close> (\<open>None\<close>); \<open>delivers k\<close> tells whether the
  \<open>k\<close>-th call of \<open>sendNotification\<close> in the scan returns; \<open>toLocaleDateString\<close> is the
  formatting of a date in the locale of the process.
\<close>

record scan_env =
  scan_now :: time
  scan_dateNow :: time
  soonDays :: "int option"
  delivers :: "nat \<Rightarrow> bool"
  toLocaleDateString :: "time \<Rightarrow> string"

definition expiredPayload :: "document \<Rightarrow> notification" where
  "expiredPayload doc =
     \<lparr>title = ''Document expired'',
      n_body = d_type doc @ '' ('' @ d_number doc @ '') has expired''\<rparr>"

definition soonPayload :: "scan_env \<Rightarrow> document \<Rightarrow> notification" where
  "soonPayload env doc =
     \<lparr>title = ''Document expiring soon'',
      n_body = d_type doc @ '' ('' @ d_number doc @ '') expires on ''
                 @ toLocaleDateString env (d_expiryDate doc)\<rparr>"

text \<open>\<open>u ? u.pushSubscriptions.filter((s) => s.enabled) : []\<close> for \<open>u = User.findById(uid)\<close>\<close>

definition enabledSubscriptions :: "user collection \<Rightarrow> nat \<Rightarrow> subscription list" where
  "enabledSubscriptions users uid =
     (case findById users uid of None \<Rightarrow> [] | Some u \<Rightarrow> filter enabled (u_pushSubscriptions u))"

text \<open>
  The inner loop: one \<open>sendNotification\<close> for each subscription, each in its own
  \<open>try\<close> with an empty \<open>catch\<close>, so the loop goes on to the next subscription whether
  the call returned or threw. The list of the calls made so far is threaded through.
\<close>

fun sendToAll :: "scan_env \<Rightarrow> notification \<Rightarrow> subscription list \<Rightarrow> attempt list \<Rightarrow> attempt list" where
  "sendToAll env payload [] sent = sent"
| "sendToAll env payload (sub # subs) sent =
     (if delivers env (length sent)
      then sendToAll env payload subs
             (sent @ [\<lparr>a_endpoint = endpoint sub, a_keys = keys sub, a_payload = payload,
                      a_delivered = True\<rparr>])
      else sendToAll env payload subs
             (sent @ [\<lparr>a_endpoint = endpoint sub, a_keys = keys sub, a_payload = payload,
                      a_delivered = False\<rparr>]))"

text \<open>
  The outer loop over the documents of one query, with the cache \<open>usersMap\<close> of the
  enabled subscriptions of each owner met so far.
\<close>

fun notifyAll ::
  "scan_env \<Rightarrow> user collection \<Rightarrow> (document \<Rightarrow> notification) \<Rightarrow> document list \<Rightarrow>
   (nat \<rightharpoonup> subscription list) \<times> attempt list \<Rightarrow> (nat \<rightharpoonup> subscription list) \<times> attempt list" where
  "notifyAll env users payload [] (usersMap, sent) = (usersMap, sent)"
| "notifyAll env users payload (doc # docs) (usersMap, sent) =
     (let uid = d_user doc;
          usersMap' = (case usersMap uid of
                         None \<Rightarrow> usersMap(uid \<mapsto> enabledSubscriptions users uid)
                       | Some cached \<Rightarrow> usersMap);
          subs = (case usersMap' uid of None \<Rightarrow> [] | Some cached \<Rightarrow> cached)
      in notifyAll env users payload docs (usersMap', sendToAll env (payload doc) subs sent))"

text \<open>The largest time value of a \<open>Date\<close>; beyond it \<open>new Date(v)\<close> is an Invalid Date.\<close>

definition maxTime :: int where
  "maxTime = 8640000000000000"

text \<open>The first query: \<open>Document.find({ expiryDate: { $lte: now } })\<close>.\<close>

definition expiredDocs :: "scan_env \<Rightarrow> document collection \<Rightarrow> document collection" where
  "expiredDocs env docs = filter (\<lambda>e. d_expiryDate (snd e) \<le> scan_now env) docs"

text \<open>
  \<open>new Date(Date.now() + soonDays * 24 * 60 * 60 * 1000)\<close>: \<open>None\<close> is the Invalid Date,
  which it is when \<open>soonDays\<close> is \<open>NaN\<close> or the sum is outside the range of a \<open>Date\<close>.
  For a clock reading between the epoch and \<open>2 ^ 53 - maxTime\<close> the double-precision
  sum is outside the range exactly when the integer sum is.
\<close>

definition soonThreshold :: "scan_env \<Rightarrow> time option" where
  "soonThreshold env =
     (case soonDays env of
        None \<Rightarrow> None
      | Some days \<Rightarrow>
          (let v = scan_dateNow env + days * 24 * 60 * 60 * 1000
           in if \<bar>v\<bar> \<le> maxTime then Some v else None))"

text \<open>
  The second query: \<open>Document.find({ expiryDate: { $gt: now, $lte: soonThreshold } })\<close>.
  An Invalid Date does not cast, and the query rejects (\<open>None\<close>).
\<close>

definition expiringSoonDocs :: "scan_env \<Rightarrow> document collection \<Rightarrow> document collection option" where
  "expiringSoonDocs env docs =
     (case soonThreshold env of
        None \<Rightarrow> None
      | Some threshold \<Rightarrow>
          Some (filter (\<lambda>e. scan_now env < d_expiryDate (snd e) \<and> d_expiryDate (snd e) \<le> threshold)
                  docs))"

text \<open>
  \<open>notifyExpiredDocuments\<close> (\<open>fullNotifyExpired\<close> has the same body): the calls of
  \<open>sendNotification\<close> it makes. Both queries come before both loops, inside one \<open>try\<close>
  whose \<open>catch\<close> is empty: when the second query rejects, the scan ends with no call made.
  The database answers every query whose filter casts.
\<close>

definition notifyExpiredDocuments ::
  "scan_env \<Rightarrow> document collection \<Rightarrow> user collection \<Rightarrow> attempt list" where
  "notifyExpiredDocuments env docs users =
     (let expired = expiredDocs env docs in
      case expiringSoonDocs env docs of
        None \<Rightarrow> []
      | Some expiringSoon \<Rightarrow>
          (let afterExpired = notifyAll env users expiredPayload (map snd expired) (Map.empty, [])
           in snd (notifyAll env users (soonPayload env) (map snd expiringSoon) afterExpired)))"

text \<open>
  What a scan with these two selections is to attempt, in order: for each selected
  document, one message to each enabled subscription of its owner.
\<close>

definition a_target :: "attempt \<Rightarrow> string \<times> string \<times> notification" where
  "a_target a = (a_endpoint a, a_keys a, a_payload a)"

definition due_for :: "user collection \<Rightarrow> (document \<Rightarrow> notification) \<Rightarrow> document \<Rightarrow> (string \<times> string \<times> notification) list" where
  "due_for users payload doc =
     map (\<lambda>sub. (endpoint sub, keys sub, payload doc)) (enabledSubscriptions users (d_user doc))"

definition due ::
  "scan_env \<Rightarrow> user collection \<Rightarrow> document collection \<Rightarrow> document collection \<Rightarrow>
   (string \<times> string \<times> notification) list" where
  "due env users expired expiringSoon =
     concat (map (due_for users expiredPayload) (map snd expired))
     @ concat (map (due_for users (soonPayload env)) (map snd expiringSoon))"

text \<open>The invariant of the cache: it holds, for each owner it knows, the enabled subscriptions of that owner.\<close>

definition cache_ok :: "user collection \<Rightarrow> (nat \<rightharpoonup> subscription list) \<Rightarrow> bool" where
  "cache_ok users m = (\<forall>uid subs. m uid = Some subs \<longrightarrow> subs = enabledSubscriptions users uid)"

section \<open>Sample inputs\<close>

definition sample_doc :: document where
  "sample_doc =
     \<lparr>d_user = 7, d_country = ''NG'', d_type = ''Licence'', d_number = ''A1'',
      d_issueDate = None, d_expiryDate = 0, d_status = Expired, d_createdAt = 0\<rparr>"

definition empty_body :: doc_body where
  "empty_body =
     \<lparr>body_user = Absent, body_country = Absent, body_type = Absent, body_number = Absent,
      body_issueDate = Absent, body_expiryDate = Absent, body_status = Absent,
      body_createdAt = Absent\<rparr>"

definition sample_body :: doc_body where
  "sample_body =
     \<lparr>body_user = Absent, body_country = Given ''NG'', body_type = Given ''Licence'',
      body_number = Given ''A1'', body_issueDate = Absent, body_expiryDate = Given 0,
      body_status = Given ''valid'', body_createdAt = Absent\<rparr>"

definition sample_gateway_data :: gateway_data where
  "sample_gateway_data =
     \<lparr>g_status = ''success'', g_amount = Some 500000, g_currency = Some ''NGN'', g_id = ''42''\<rparr>"

text \<open>A call five days after the epoch, in UTC, with the gateway confirming.\<close>

definition sample_env :: verify_env where
  "sample_env =
     \<lparr>secretKey = Some ''sk'', zone = utc_zone, paystackRes = GatewayData sample_gateway_data,
      clk_paid = 5 * msPerDay, clk_now = 5 * msPerDay, clk_today = 5 * msPerDay\<rparr>"

definition sample_store :: store where
  "sample_store = \<lparr>payments = [], documents = [(1, sample_doc)]\<rparr>"

definition sample_request :: verify_request where
  "sample_request = \<lparr>vr_user = 7, vr_reference = ''R1'', vr_documentId = Some 1\<rparr>"

definition sample_payment :: "nat \<Rightarrow> payment" where
  "sample_payment d =
     \<lparr>p_user = 7, p_document = d, p_type = ''renewal'', p_amount = 500000,
      p_currency = ''NGN'', p_paystackReference = ''R1'', p_paystackTransactionId = ''42'',
      p_status = ''success'', p_date = 5 * msPerDay\<rparr>"

definition sample_booking_body :: booking_body where
  "sample_booking_body =
     \<lparr>bb_date = Plain 1748736000000, bb_startTime = Plain ''10:00'',
      bb_lessonType = Absent, bb_notes = Absent\<rparr>"

text \<open>
  A body whose \<open>date\<close> is \<open>{ "$gt": 0 }\<close> and whose \<open>startTime\<close> is
  \<open>{ "$ne": "zzz" }\<close>.
\<close>

definition operator_booking_body :: booking_body where
  "operator_booking_body =
     \<lparr>bb_date = Operators (\<lambda>d. 0 < d), bb_startTime = Operators (\<lambda>t. t \<noteq> ''zzz''),
      bb_lessonType = Absent, bb_notes = Absent\<rparr>"

definition sample_booking :: booking where
  "sample_booking =
     \<lparr>b_user = 7, b_date = 1748736000000, b_startTime = ''10:00'',
      b_lessonType = ''Standard Lesson'', b_status = Confirmed, b_notes = None,
      b_createdAt = 0\<rparr>"



definition sample_subscriber :: user where
  "sample_subscriber =
     \<lparr>u_fullName = ''Ada'', u_email = ''ada@example.com'',
      u_pushSubscriptions =
        [\<lparr>endpoint = ''https://push/a'', keys = ''ka'', enabled = True\<rparr>,
         \<lparr>endpoint = ''https://push/b'', keys = ''kb'', enabled = False\<rparr>,
         \<lparr>endpoint = ''https://push/c'', keys = ''kc'', enabled = True\<rparr>]\<rparr>"

text \<open>
  A scan that starts at the epoch and reads \<open>Date.now()\<close> five milliseconds later, with
  the default window of 30 days; every delivery fails.
\<close>

definition sample_scan :: scan_env where
  "sample_scan =
     \<lparr>scan_now = 0, scan_dateNow = 5, soonDays = Some 30, delivers = (\<lambda>k. False),
      toLocaleDateString = (\<lambda>t. ''1/31/1970'')\<rparr>"

definition sample_docs :: "document collection" where
  "sample_docs =
     [(1, sample_doc),
      (2, sample_doc\<lparr>d_number := ''B2'', d_expiryDate := 30 * msPerDay + 3\<rparr>),
      (3, sample_doc\<lparr>d_number := ''C3'', d_expiryDate := 31 * msPerDay\<rparr>)]"

section \<open>The status computation\<close>

lemma msPerDay_pos: "0 < msPerDay"
  by (simp add: msPerDay_def)

lemma daysUntilExpiry_div: "daysUntilExpiry expiry today = - ((today - expiry) div msPerDay)"
  unfolding daysUntilExpiry_def ceiling_divide_eq_div by simp

lemma daysUntilExpiry_le: "daysUntilExpiry expiry today \<le> n \<longleftrightarrow> expiry - today \<le> n * msPerDay"
proof -
  have "daysUntilExpiry expiry today \<le> n
        \<longleftrightarrow> real_of_int (expiry - today) / real_of_int msPerDay \<le> real_of_int n"
    unfolding daysUntilExpiry_def by (rule ceiling_le_iff)
  also have "\<dots> \<longleftrightarrow> real_of_int (expiry - today) \<le> real_of_int n * real_of_int msPerDay"
    using msPerDay_pos by (simp add: pos_divide_le_eq)
  also have "\<dots> \<longleftrightarrow> expiry - today \<le> n * msPerDay"
    by (metis of_int_le_iff of_int_mult)
  finally show ?thesis .
qed

lemma daysUntilExpiry_less: "daysUntilExpiry expiry today < n \<longleftrightarrow> expiry - today \<le> (n - 1) * msPerDay"
  using daysUntilExpiry_le [of expiry today "n - 1"] by linarith

lemma preSave_status:
  "d_status (preSave today doc) =
     (if daysUntilExpiry (d_expiryDate doc) today < 0 then Expired
      else if daysUntilExpiry (d_expiryDate doc) today \<le> 30 then Expiring else Valid)"
  by (simp add: preSave_def Let_def)

lemma preSave_expiryDate: "d_expiryDate (preSave today doc) = d_expiryDate doc"
  by (simp add: preSave_def Let_def)

lemma fold_max_ge: "(m::nat) \<le> fold max xs m"
  by (induction xs arbitrary: m) (auto intro: order_trans [OF max.cobounded2])

lemma fold_max_mem: "x \<in> set xs \<Longrightarrow> (x::nat) \<le> fold max xs m"
proof (induction xs arbitrary: m)
  case Nil
  then show ?case by simp
next
  case (Cons y ys)
  show ?case
  proof (cases "x = y")
    case True
    have "x \<le> max y m" using True by simp
    also have "\<dots> \<le> fold max ys (max y m)" by (rule fold_max_ge)
    finally show ?thesis by simp
  next
    case False
    with Cons.prems have "x \<in> set ys" by simp
    then show ?thesis using Cons.IH by simp
  qed
qed

lemma fresh_id_fresh: "fresh_id c \<notin> fst ` set c"
proof
  assume "fresh_id c \<in> fst ` set c"
  then have "fresh_id c \<in> set (map fst c)" by simp
  then have "fresh_id c \<le> fold max (map fst c) 0" by (rule fold_max_mem)
  then show False by (simp add: fresh_id_def)
qed

lemma findById_insert_new: "findById (insert_new c x) (fresh_id c) = Some x"
proof -
  have "map_of c (fresh_id c) = None"
    by (simp add: map_of_eq_None_iff fresh_id_fresh)
  then show ?thesis
    by (simp add: findById_def insert_new_def map_add_def)
qed

lemma create_document_Some:
  "create_document now today c b = Some (doc, c') \<Longrightarrow>
     \<exists>d. new_document now b = Some d \<and> doc = preSave today d \<and> c' = insert_new c doc"
  by (auto simp: create_document_def Let_def split: option.splits)

lemma new_document_expiryDate:
  "new_document now b = Some d \<Longrightarrow> body_expiryDate b = Given (d_expiryDate d)"
  by (auto simp: new_document_def required_field_def split: option.splits field.splits)

section \<open>Document status on create, save and update\<close>

lemmas document_defs =
  addDocument_def create_document_def new_document_def required_field_def
  required_string_def optional_field_def cast_status_def status_of_string_def preSave_def
  daysUntilExpiry_div msPerDay_def insert_new_def fresh_id_def updateDocument_def
  findByIdAndUpdate_def findById_def valid_update_def apply_update_def field_casts_def
  string_valid_def set_field_def set_status_def Let_def

lemmas sample_defs = sample_doc_def sample_body_def empty_body_def

text \<open>
  C3. The hook computes the days until expiry as the ceiling of the millisecond
  difference \<open>expiry - today\<close> divided by one day: it is the integer \<open>n\<close> with
  \<open>(n - 1) days < expiry - today \<le> n days\<close>. A document with exactly 30 whole days
  remaining is \<open>expiring\<close> (the boundary is inclusive), a document whose expiry is the
  present moment, or any document with 0 days until expiry, is \<open>expiring\<close> and not
  \<open>expired\<close>, and \<open>expired\<close> is exactly a negative number of days.
\<close>

theorem status_boundary_arithmetic:
  "daysUntilExpiry expiry today = - ((today - expiry) div msPerDay)
   \<and> (daysUntilExpiry expiry today = n
        \<longleftrightarrow> (n - 1) * msPerDay < expiry - today \<and> expiry - today \<le> n * msPerDay)
   \<and> daysUntilExpiry (today + 30 * msPerDay) today = 30
   \<and> d_status (preSave today (doc\<lparr>d_expiryDate := today + 30 * msPerDay\<rparr>)) = Expiring
   \<and> daysUntilExpiry today today = 0
   \<and> d_status (preSave today (doc\<lparr>d_expiryDate := today\<rparr>)) = Expiring
   \<and> (daysUntilExpiry (d_expiryDate doc) today = 30 \<longrightarrow> d_status (preSave today doc) = Expiring)
   \<and> (daysUntilExpiry (d_expiryDate doc) today = 0 \<longrightarrow> d_status (preSave today doc) = Expiring)
   \<and> (d_status (preSave today doc) = Expired \<longleftrightarrow> daysUntilExpiry (d_expiryDate doc) today < 0)"
proof -
  have ceil: "daysUntilExpiry expiry today = n
        \<longleftrightarrow> (n - 1) * msPerDay < expiry - today \<and> expiry - today \<le> n * msPerDay"
    using daysUntilExpiry_le [of expiry today n] daysUntilExpiry_less [of expiry today n]
    by linarith
  have d30: "daysUntilExpiry (today + 30 * msPerDay) today = 30"
    by (simp add: daysUntilExpiry_div msPerDay_def)
  have d0: "daysUntilExpiry today today = 0"
    by (simp add: daysUntilExpiry_div)
  show ?thesis
    using ceil d30 d0 by (simp add: daysUntilExpiry_div [symmetric] preSave_status)
qed

theorem status_boundary_arithmetic_witness:
  "daysUntilExpiry 1 0 = 1
   \<and> daysUntilExpiry (30 * msPerDay) 0 = 30
   \<and> d_status (preSave 0 (sample_doc\<lparr>d_expiryDate := 30 * msPerDay\<rparr>)) = Expiring
   \<and> daysUntilExpiry (d_expiryDate sample_doc) 0 = 0
   \<and> d_status (preSave 0 sample_doc) = Expiring
   \<and> d_status (preSave 0 sample_doc) \<noteq> Expired"
  using status_boundary_arithmetic [of 1 0 1 sample_doc]
    status_boundary_arithmetic [of 1 0 1 "sample_doc\<lparr>d_expiryDate := 30 * msPerDay\<rparr>"]
  by (simp add: sample_doc_def msPerDay_def)

lemma addDocument_created:
  assumes "addDocument now today c uid b = (r, c')" and "code r = 201"
  shows "\<exists>d. new_document now (b\<lparr>body_user := Given uid\<rparr>) = Some d
             \<and> r = Reply 201 True (Some ''Document added successfully'') (Some (preSave today d))
             \<and> c' = insert_new c (preSave today d)"
proof (cases "create_document now today c (b\<lparr>body_user := Given uid\<rparr>)")
  case None
  with assms show ?thesis by (auto simp: addDocument_def)
next
  case (Some p)
  obtain doc c2 where p: "p = (doc, c2)" by (cases p)
  from create_document_Some [OF Some [unfolded p]] obtain d where
    d: "new_document now (b\<lparr>body_user := Given uid\<rparr>) = Some d" "doc = preSave today d"
       "c2 = insert_new c doc"
    by blast
  with assms(1) Some p show ?thesis by (auto simp: addDocument_def)
qed

lemma status_cases:
  fixes days :: int
  assumes "st = (if days < 0 then Expired else if days \<le> 30 then Expiring else Valid)"
  shows "(st = Expired \<longleftrightarrow> days < 0) \<and> (st = Expiring \<longleftrightarrow> 0 \<le> days \<and> days \<le> 30)
         \<and> (st = Valid \<longleftrightarrow> 30 < days)"
  using assms by auto

text \<open>
  C2, as the code has it. After every successful create (\<open>POST /documents\<close>, reply 201)
  and after every \<open>save()\<close> of a document, with \<open>today\<close> the clock reading of the save
  hook: the stored status is \<open>expired\<close> if and only if the days until expiry are negative,
  which is \<open>expiryDate \<le> today - 1 day\<close>; it is \<open>expiring\<close> if and only if
  \<open>0 \<le> daysUntilExpiry \<le> 30\<close>, the window of the hook being the constant 30; it is
  \<open>valid\<close> otherwise.
\<close>

theorem status_after_save:
  assumes "addDocument now today c uid b = (r, c')" and "code r = 201"
  shows "(\<exists>doc. body r = Some doc \<and> findById c' (fresh_id c) = Some doc
           \<and> body_expiryDate b = Given (d_expiryDate doc)
           \<and> (d_status doc = Expired \<longleftrightarrow> daysUntilExpiry (d_expiryDate doc) today < 0)
           \<and> (d_status doc = Expired \<longleftrightarrow> d_expiryDate doc \<le> today - msPerDay)
           \<and> (d_status doc = Expiring \<longleftrightarrow>
                0 \<le> daysUntilExpiry (d_expiryDate doc) today \<and> daysUntilExpiry (d_expiryDate doc) today \<le> 30)
           \<and> (d_status doc = Valid \<longleftrightarrow> 30 < daysUntilExpiry (d_expiryDate doc) today))
    \<and> (d_status (fst (save today c i doc0)) = Expired \<longleftrightarrow> daysUntilExpiry (d_expiryDate doc0) today < 0)
    \<and> (d_status (fst (save today c i doc0)) = Expiring \<longleftrightarrow>
           0 \<le> daysUntilExpiry (d_expiryDate doc0) today \<and> daysUntilExpiry (d_expiryDate doc0) today \<le> 30)
    \<and> (d_status (fst (save today c i doc0)) = Valid \<longleftrightarrow> 30 < daysUntilExpiry (d_expiryDate doc0) today)"
proof -
  from addDocument_created [OF assms] obtain d where
    d: "new_document now (b\<lparr>body_user := Given uid\<rparr>) = Some d"
       "r = Reply 201 True (Some ''Document added successfully'') (Some (preSave today d))"
       "c' = insert_new c (preSave today d)"
    by blast
  let ?doc = "preSave today d"
  have e: "d_expiryDate ?doc = d_expiryDate d" by (rule preSave_expiryDate)
  have st: "d_status ?doc =
      (if daysUntilExpiry (d_expiryDate ?doc) today < 0 then Expired
       else if daysUntilExpiry (d_expiryDate ?doc) today \<le> 30 then Expiring else Valid)"
    by (simp add: preSave_status e)
  have exp: "daysUntilExpiry (d_expiryDate ?doc) today < 0 \<longleftrightarrow> d_expiryDate ?doc \<le> today - msPerDay"
    using daysUntilExpiry_less [of "d_expiryDate ?doc" today 0] by auto
  have given: "body_expiryDate b = Given (d_expiryDate ?doc)"
    using new_document_expiryDate [OF d(1)] e by simp
  have "body r = Some ?doc" by (simp add: d(2))
  moreover have "findById c' (fresh_id c) = Some ?doc"
    by (simp add: d(3) findById_insert_new)
  ultimately have created: "\<exists>doc. body r = Some doc \<and> findById c' (fresh_id c) = Some doc
           \<and> body_expiryDate b = Given (d_expiryDate doc)
           \<and> (d_status doc = Expired \<longleftrightarrow> daysUntilExpiry (d_expiryDate doc) today < 0)
           \<and> (d_status doc = Expired \<longleftrightarrow> d_expiryDate doc \<le> today - msPerDay)
           \<and> (d_status doc = Expiring \<longleftrightarrow>
                0 \<le> daysUntilExpiry (d_expiryDate doc) today \<and> daysUntilExpiry (d_expiryDate doc) today \<le> 30)
           \<and> (d_status doc = Valid \<longleftrightarrow> 30 < daysUntilExpiry (d_expiryDate doc) today)"
    using status_cases [OF st] exp given by (intro exI [of _ ?doc]) blast
  have st0: "d_status (fst (save today c i doc0)) =
      (if daysUntilExpiry (d_expiryDate doc0) today < 0 then Expired
       else if daysUntilExpiry (d_expiryDate doc0) today \<le> 30 then Expiring else Valid)"
    by (simp add: save_def Let_def preSave_status)
  from created status_cases [OF st0] show ?thesis by blast
qed

theorem status_after_save_witness:
  "code (fst (addDocument 5 (31 * msPerDay) [] 7 sample_body)) = 201
   \<and> body (fst (addDocument 5 (31 * msPerDay) [] 7 sample_body))
       = Some (sample_doc\<lparr>d_createdAt := 5\<rparr>)
   \<and> findById (snd (addDocument 5 (31 * msPerDay) [] 7 sample_body)) (fresh_id [])
       = Some (sample_doc\<lparr>d_createdAt := 5\<rparr>)
   \<and> d_status (fst (save (31 * msPerDay) [] 1 sample_doc)) = Expired"
proof -
  have run: "addDocument 5 (31 * msPerDay) [] 7 sample_body =
      (Reply 201 True (Some ''Document added successfully'') (Some (sample_doc\<lparr>d_createdAt := 5\<rparr>)),
       [(1, sample_doc\<lparr>d_createdAt := 5\<rparr>)])"
    by (simp add: document_defs sample_defs)
  have c: "code (Reply 201 True (Some ''Document added successfully'')
      (Some (sample_doc\<lparr>d_createdAt := 5\<rparr>))) = 201"
    by simp
  have d0: "daysUntilExpiry (d_expiryDate sample_doc) (31 * msPerDay) = - 31"
    by (simp add: daysUntilExpiry_div sample_doc_def msPerDay_def)
  show ?thesis
    using status_after_save [OF run c, of 1 sample_doc] d0
    by (simp add: run findById_def fresh_id_def)
qed

text \<open>
  C2 as stated fails: a document created one hour after its expiry date has
  \<open>expiryDate < now\<close> and is stored as \<open>expiring\<close>, not \<open>expired\<close>. And with the
  expiry-soon window configured to 10 days, a document saved 20 days before its expiry
  date is stored as \<open>expiring\<close>.
\<close>

theorem status_expired_iff_past_counterexample:
  "addDocument 3600000 3600000 [] 7 sample_body =
     (Reply 201 True (Some ''Document added successfully'')
        (Some (sample_doc\<lparr>d_status := Expiring, d_createdAt := 3600000\<rparr>)),
      [(1, sample_doc\<lparr>d_status := Expiring, d_createdAt := 3600000\<rparr>)])
   \<and> d_expiryDate (sample_doc\<lparr>d_status := Expiring, d_createdAt := 3600000\<rparr>) < 3600000
   \<and> d_status (sample_doc\<lparr>d_status := Expiring, d_createdAt := 3600000\<rparr>) \<noteq> Expired
   \<and> d_status (fst (save 0 [] 1 (sample_doc\<lparr>d_expiryDate := 20 * msPerDay\<rparr>))) = Expiring
   \<and> daysUntilExpiry (20 * msPerDay) 0 = 20
   \<and> soonDays (sample_scan\<lparr>soonDays := Some 10\<rparr>) = Some 10 \<and> \<not> (20::int) \<le> 10"
  by (simp add: document_defs sample_defs save_def)

text \<open>
  C1 at a failing input. The owner sends \<open>PUT /documents/1\<close> with the body
  \<open>{ status: 'valid' }\<close> for a stored document whose expiry date is the epoch and whose
  status is \<open>expired\<close>: the update stores \<open>valid\<close>, the status of the caller, with no
  reading of the clock. A second update that moves only the expiry date a year ahead
  leaves the stored status \<open>expired\<close>. The save hook gives \<open>expired\<close> for the first
  document two days after the epoch, and the create path puts the computed status in
  place of the \<open>'valid'\<close> of the body.
\<close>

theorem update_keeps_supplied_status:
  "updateDocument [(1, sample_doc)] 7 1 (empty_body\<lparr>body_status := Given ''valid''\<rparr>) =
     (Reply 200 True (Some ''Document updated successfully'') (Some (sample_doc\<lparr>d_status := Valid\<rparr>)),
      [(1, sample_doc\<lparr>d_status := Valid\<rparr>)])
   \<and> d_status (preSave (2 * msPerDay) (sample_doc\<lparr>d_status := Valid\<rparr>)) = Expired
   \<and> updateDocument [(1, sample_doc)] 7 1 (empty_body\<lparr>body_expiryDate := Given (367 * msPerDay)\<rparr>) =
     (Reply 200 True (Some ''Document updated successfully'')
        (Some (sample_doc\<lparr>d_expiryDate := 367 * msPerDay\<rparr>)),
      [(1, sample_doc\<lparr>d_expiryDate := 367 * msPerDay\<rparr>)])
   \<and> d_status (preSave (2 * msPerDay) (sample_doc\<lparr>d_expiryDate := 367 * msPerDay\<rparr>)) = Valid
   \<and> body (fst (addDocument (2 * msPerDay) (2 * msPerDay) [] 7 sample_body))
       = Some (sample_doc\<lparr>d_status := Expired, d_createdAt := 2 * msPerDay\<rparr>)"
  by (simp add: document_defs sample_defs)

section \<open>One calendar year ahead\<close>




























section \<open>Payment verification\<close>

lemma find_snoc_new: "find P xs = None \<Longrightarrow> P x \<Longrightarrow> find P (xs @ [x]) = Some x"
  by (induction xs) (auto split: if_splits)

lemma verifyPayment_recorded:
  assumes "findPayment (payments s) (vr_reference req) = Some p"
  shows "snd (verifyPayment env s req) = s"
    and "gateway_confirms env \<Longrightarrow> verifyPayment env s req = (already_processed, s)"
  using assms
  by (auto simp: verifyPayment_def gateway_confirms_def already_processed_def
      split: gateway_result.splits)

lemma new_payment_reference:
  "new_payment paid req data = Some p \<Longrightarrow>
     p_paystackReference p = vr_reference req \<and> vr_documentId req = Some (p_document p)"
  by (auto simp: new_payment_def split: option.splits if_splits)

lemma verifyPayment_first:
  assumes "gateway_confirms env" and "paystackRes env = GatewayData data"
    and "findPayment (payments s) (vr_reference req) = None"
    and "new_payment (clk_paid env) req data = Some p"
  shows "verifyPayment env s req =
     (case findById (documents s) (p_document p) of
        None \<Rightarrow> (Reply 404 False (Some ''Document not found'') None, s\<lparr>payments := payments s @ [p]\<rparr>)
      | Some document \<Rightarrow>
          (Reply 200 True None
             (Some (preSave (clk_today env)
                (document\<lparr>d_expiryDate :=
                    extendedExpiry (zone env) (d_expiryDate document) (clk_now env),
                  d_status := Valid\<rparr>))),
           s\<lparr>payments := payments s @ [p],
             documents := AList.update (p_document p)
               (preSave (clk_today env)
                 (document\<lparr>d_expiryDate :=
                    extendedExpiry (zone env) (d_expiryDate document) (clk_now env),
                  d_status := Valid\<rparr>)) (documents s)\<rparr>))"
  using assms
  by (auto simp: verifyPayment_def gateway_confirms_def save_def Let_def split: option.splits)

lemma verifyPayment_success_records:
  assumes "success (fst (verifyPayment env s req))"
  shows "findPayment (payments (snd (verifyPayment env s req))) (vr_reference req) \<noteq> None"
proof (cases "findPayment (payments s) (vr_reference req)")
  case (Some p)
  then show ?thesis using verifyPayment_recorded(1) [OF Some, of env] by simp
next
  case None
  show ?thesis
  proof (cases "gateway_confirms env")
    case False
    with assms show ?thesis
      by (auto simp: verifyPayment_def gateway_confirms_def verification_failed_def
          split: gateway_result.splits if_splits)
  next
    case True
    then obtain data where data: "paystackRes env = GatewayData data"
      by (auto simp: gateway_confirms_def split: gateway_result.splits)
    show ?thesis
    proof (cases "new_payment (clk_paid env) req data")
      case None
      with assms True data \<open>findPayment (payments s) (vr_reference req) = None\<close> show ?thesis
        by (auto simp: verifyPayment_def gateway_confirms_def verification_failed_def)
    next
      case (Some p)
      have "findPayment (payments s @ [p]) (vr_reference req) = Some p"
        using \<open>findPayment (payments s) (vr_reference req) = None\<close> new_payment_reference [OF Some]
        by (simp add: findPayment_def find_snoc_new)
      then show ?thesis
        using verifyPayment_first [OF True data \<open>findPayment (payments s) (vr_reference req) = None\<close> Some]
        by (auto split: option.splits)
    qed
  qed
qed




lemma preSave_far_valid:
  assumes "today + 30 * msPerDay < d_expiryDate doc"
  shows "preSave today doc = doc\<lparr>d_status := Valid\<rparr>"
proof -
  have "\<not> daysUntilExpiry (d_expiryDate doc) today \<le> 30"
    using assms by (simp add: daysUntilExpiry_le)
  then show ?thesis by (simp add: preSave_def Let_def)
qed


lemmas payment_sample_defs =
  sample_env_def sample_store_def sample_request_def sample_gateway_data_def sample_doc_def
  sample_payment_def

lemma sample_next_year:
  "setFullYear utc_zone (5 * msPerDay) (getFullYear utc_zone (5 * msPerDay) + 1) = 370 * msPerDay"
  by code_simp

lemma sample_first_run:
  "verifyPayment sample_env sample_store sample_request =
       (Reply 200 True None (Some (sample_doc\<lparr>d_expiryDate := 370 * msPerDay, d_status := Valid\<rparr>)),
        \<lparr>payments = [sample_payment 1],
         documents = [(1, sample_doc\<lparr>d_expiryDate := 370 * msPerDay, d_status := Valid\<rparr>)]\<rparr>)"
proof -
  have h1: "gateway_confirms sample_env"
    by (simp add: gateway_confirms_def payment_sample_defs)
  have h2: "paystackRes sample_env = GatewayData sample_gateway_data"
    by (simp add: sample_env_def)
  have h3: "findPayment (payments sample_store) (vr_reference sample_request) = None"
    by (simp add: findPayment_def sample_store_def)
  have p: "new_payment (clk_paid sample_env) sample_request sample_gateway_data = Some (sample_payment 1)"
    by (simp add: new_payment_def payment_sample_defs)
  have e: "extendedExpiry (zone sample_env) (d_expiryDate sample_doc) (clk_now sample_env) = 370 * msPerDay"
    using msPerDay_pos by (simp add: extendedExpiry_def sample_env_def sample_doc_def sample_next_year)
  have v: "preSave (clk_today sample_env) (sample_doc\<lparr>d_expiryDate := 370 * msPerDay, d_status := Valid\<rparr>)
      = sample_doc\<lparr>d_expiryDate := 370 * msPerDay, d_status := Valid\<rparr>"
    using preSave_far_valid [of "clk_today sample_env" "sample_doc\<lparr>d_expiryDate := 370 * msPerDay, d_status := Valid\<rparr>"]
      msPerDay_pos
    by (simp add: sample_env_def)
  have f: "findById (documents sample_store) (p_document (sample_payment 1)) = Some sample_doc"
    by (simp add: findById_def sample_store_def sample_payment_def)
  have "verifyPayment sample_env sample_store sample_request =
      (Reply 200 True None (Some (sample_doc\<lparr>d_expiryDate := 370 * msPerDay, d_status := Valid\<rparr>)),
       sample_store\<lparr>payments := payments sample_store @ [sample_payment 1],
         documents := AList.update (p_document (sample_payment 1))
           (sample_doc\<lparr>d_expiryDate := 370 * msPerDay, d_status := Valid\<rparr>)
           (documents sample_store)\<rparr>)"
    using verifyPayment_first [OF h1 h2 h3 p] by (simp only: f option.case e v)
  then show ?thesis
    by (simp add: sample_store_def sample_payment_def)
qed



lemma verifyPayment_unconfirmed:
  assumes "\<not> gateway_confirms env"
  shows "verifyPayment env s req = (verification_failed, s)
     \<or> verifyPayment env s req = (Reply 400 False (Some ''Payment verification failed'') None, s)"
  using assms
  by (auto simp: verifyPayment_def gateway_confirms_def split: gateway_result.splits)

text \<open>
  C4, as the code has it. Verification is idempotent in the reference. When the
  reference of a request is already recorded, the call changes nothing in the store,
  whatever the gateway answers: no payment is added and no document is touched, so the
  expiry date and the status of the target document stay as they are. The handler asks
  the gateway before it looks for the recorded payment: when the gateway confirms the
  transaction again, the reply is the success reply \<open>Already processed\<close>; when it does
  not, the reply is 400 or 500 and the store is unchanged. Every call that replies with
  success leaves its reference recorded, so a second request with the same reference
  after a successful first one is such a replay.
\<close>

theorem verification_replay_idempotent:
  "(findPayment (payments s) (vr_reference req) \<noteq> None \<longrightarrow>
      snd (verifyPayment env s req) = s
      \<and> (gateway_confirms env \<longrightarrow>
           fst (verifyPayment env s req) = Reply 200 True (Some ''Already processed'') None))
   \<and> (\<not> gateway_confirms env \<longrightarrow>
        snd (verifyPayment env s req) = s
        \<and> (fst (verifyPayment env s req) = Reply 500 False (Some ''Verification failed'') None
             \<or> fst (verifyPayment env s req) = Reply 400 False (Some ''Payment verification failed'') None))
   \<and> (success (fst (verifyPayment env0 s0 req0)) \<longrightarrow>
        findPayment (payments (snd (verifyPayment env0 s0 req0))) (vr_reference req0) \<noteq> None)
   \<and> (success (fst (verifyPayment env0 s0 req0)) \<and> vr_reference req = vr_reference req0
        \<and> gateway_confirms env \<longrightarrow>
        verifyPayment env (snd (verifyPayment env0 s0 req0)) req =
          (Reply 200 True (Some ''Already processed'') None, snd (verifyPayment env0 s0 req0)))"
proof -
  have unconfirmed: "snd (verifyPayment env s req) = s
        \<and> (fst (verifyPayment env s req) = Reply 500 False (Some ''Verification failed'') None
             \<or> fst (verifyPayment env s req) = Reply 400 False (Some ''Payment verification failed'') None)"
    if "\<not> gateway_confirms env"
    using verifyPayment_unconfirmed [OF that, of s req] by (auto simp: verification_failed_def)
  have replay: "snd (verifyPayment e t q) = t
      \<and> (gateway_confirms e \<longrightarrow>
           verifyPayment e t q = (Reply 200 True (Some ''Already processed'') None, t))"
    if "findPayment (payments t) (vr_reference q) \<noteq> None" for e t q
  proof -
    from that obtain p where p: "findPayment (payments t) (vr_reference q) = Some p" by blast
    show ?thesis
      using verifyPayment_recorded [OF p, of e] by (simp add: already_processed_def)
  qed
  have recorded: "findPayment (payments (snd (verifyPayment env0 s0 req0))) (vr_reference req0) \<noteq> None"
    if "success (fst (verifyPayment env0 s0 req0))"
    using that by (rule verifyPayment_success_records)
  have second: "verifyPayment env (snd (verifyPayment env0 s0 req0)) req =
        (Reply 200 True (Some ''Already processed'') None, snd (verifyPayment env0 s0 req0))"
    if "success (fst (verifyPayment env0 s0 req0))" "vr_reference req = vr_reference req0"
      "gateway_confirms env"
    using replay [of "snd (verifyPayment env0 s0 req0)" req env] recorded that by simp
  from replay [of s req env] unconfirmed recorded second show ?thesis by auto
qed

theorem verification_replay_idempotent_witness:
  "success (fst (verifyPayment sample_env sample_store sample_request))
   \<and> gateway_confirms (sample_env\<lparr>clk_now := 9 * msPerDay\<rparr>)
   \<and> findPayment (payments (snd (verifyPayment sample_env sample_store sample_request)))
        (vr_reference sample_request) \<noteq> None
   \<and> verifyPayment (sample_env\<lparr>clk_now := 9 * msPerDay\<rparr>)
        (snd (verifyPayment sample_env sample_store sample_request)) sample_request =
       (Reply 200 True (Some ''Already processed'') None,
        \<lparr>payments = [sample_payment 1],
         documents = [(1, sample_doc\<lparr>d_expiryDate := 370 * msPerDay, d_status := Valid\<rparr>)]\<rparr>)"
proof -
  have ok: "success (fst (verifyPayment sample_env sample_store sample_request))"
    by (simp add: sample_first_run)
  have g: "gateway_confirms (sample_env\<lparr>clk_now := 9 * msPerDay\<rparr>)"
    by (simp add: gateway_confirms_def sample_env_def sample_gateway_data_def)
  from verification_replay_idempotent
      [of "snd (verifyPayment sample_env sample_store sample_request)" sample_request
        "sample_env\<lparr>clk_now := 9 * msPerDay\<rparr>" sample_env sample_store sample_request]
    ok g
  have rec: "findPayment (payments (snd (verifyPayment sample_env sample_store sample_request)))
        (vr_reference sample_request) \<noteq> None"
    and again: "verifyPayment (sample_env\<lparr>clk_now := 9 * msPerDay\<rparr>)
        (snd (verifyPayment sample_env sample_store sample_request)) sample_request =
       (Reply 200 True (Some ''Already processed'') None,
        snd (verifyPayment sample_env sample_store sample_request))"
    by blast+
  from ok g rec again show ?thesis
    by (simp add: sample_first_run)
qed

text \<open>
  C4 as stated fails for the reply: after the first verification has recorded the
  reference \<open>R1\<close>, a second request with the same reference for which the call to the
  gateway throws is answered 500, and one for which the gateway reports \<open>failed\<close> is
  answered 400; neither is a success reply. The store is the same after both.
\<close>

theorem verification_replay_counterexample:
  "findPayment [sample_payment 1] (vr_reference sample_request) = Some (sample_payment 1)
   \<and> verifyPayment (sample_env\<lparr>paystackRes := GatewayError\<rparr>)
        \<lparr>payments = [sample_payment 1],
         documents = [(1, sample_doc\<lparr>d_expiryDate := 370 * msPerDay, d_status := Valid\<rparr>)]\<rparr>
        sample_request =
       (Reply 500 False (Some ''Verification failed'') None,
        \<lparr>payments = [sample_payment 1],
         documents = [(1, sample_doc\<lparr>d_expiryDate := 370 * msPerDay, d_status := Valid\<rparr>)]\<rparr>)
   \<and> verifyPayment (sample_env\<lparr>paystackRes := GatewayData (sample_gateway_data\<lparr>g_status := ''failed''\<rparr>)\<rparr>)
        \<lparr>payments = [sample_payment 1],
         documents = [(1, sample_doc\<lparr>d_expiryDate := 370 * msPerDay, d_status := Valid\<rparr>)]\<rparr>
        sample_request =
       (Reply 400 False (Some ''Payment verification failed'') None,
        \<lparr>payments = [sample_payment 1],
         documents = [(1, sample_doc\<lparr>d_expiryDate := 370 * msPerDay, d_status := Valid\<rparr>)]\<rparr>)
   \<and> \<not> success (Reply 500 False (Some ''Verification failed'') None)
   \<and> \<not> success (Reply 400 False (Some ''Payment verification failed'') None)"
  by (simp add: verifyPayment_def verification_failed_def findPayment_def sample_env_def
      sample_request_def sample_payment_def sample_gateway_data_def)



section \<open>Bookings\<close>

lemma find_SomeD: "find P xs = Some x \<Longrightarrow> P x \<and> x \<in> set xs"
  by (induction xs) (auto split: if_splits)

lemma createBooking_conflict:
  "code (fst (createBooking now c uid b)) = 400
     \<longleftrightarrow> (\<exists>e\<in>set c. slot_taken uid (bb_date b) (bb_startTime b) (snd e))"
proof (cases "throws (bb_date b) \<or> throws (bb_startTime b)")
  case True
  then show ?thesis
    by (auto simp: createBooking_def server_error_def slot_taken_def throws_def matches_def
        split: filter_value.splits)
next
  case False
  show ?thesis
  proof (cases "find (\<lambda>e. slot_taken uid (bb_date b) (bb_startTime b) (snd e)) c")
    case None
    then have "\<not> (\<exists>e\<in>set c. slot_taken uid (bb_date b) (bb_startTime b) (snd e))"
      by (auto simp: find_None_iff)
    then show ?thesis
      using None False by (auto simp: createBooking_def server_error_def split: option.splits)
  next
    case (Some e)
    then have "\<exists>e\<in>set c. slot_taken uid (bb_date b) (bb_startTime b) (snd e)"
      using find_SomeD by fastforce
    then show ?thesis
      using Some False by (auto simp: createBooking_def)
  qed
qed

lemma matches_plain:
  "plain v \<Longrightarrow> matches v stored \<longleftrightarrow> Plain stored = v"
  by (auto simp: plain_def matches_def split: filter_value.splits)

lemma createBooking_rejected:
  assumes "code (fst (createBooking now c uid b)) = 400"
  shows "createBooking now c uid b =
     (Reply 400 False (Some ''You already have a booking at this time'') None, c)"
  using assms
  by (auto simp: createBooking_def server_error_def split: if_splits option.splits)

lemma new_booking_slot:
  assumes "new_booking now uid b = Some bk"
  shows "bb_date b = Plain (b_date bk) \<and> bb_startTime b = Plain (b_startTime bk)
         \<and> b_user bk = uid \<and> b_status bk = Confirmed"
  using assms
  by (auto simp: new_booking_def required_value_def
      split: option.splits filter_value.splits if_splits)

lemma createBooking_accepted:
  assumes "code (fst (createBooking now c uid b)) = 201"
  shows "\<exists>bk. new_booking now uid b = Some bk
      \<and> createBooking now c uid b = (Reply 201 True None (Some bk), insert_new c bk)
      \<and> find (\<lambda>e. slot_taken uid (bb_date b) (bb_startTime b) (snd e)) c = None"
  using assms
  by (auto simp: createBooking_def server_error_def split: if_splits option.splits)

text \<open>
  C7, as the code has it. A create request is answered 400 if and only if the owner
  has, when the request is checked, a booking whose status is not \<open>cancelled\<close> and
  whose date and start time match the filter that the body gives. For a body whose
  \<open>date\<close> and \<open>startTime\<close> hold no query operators, that is a booking at the exact same
  date and start time. The rejection carries the conflict message and stores nothing.
  Cancelled bookings do not count. When a request is accepted (201) and the same request
  follows at once, the second is rejected with the conflict message, and the owner has
  exactly one booking that is not cancelled at that slot.
\<close>

theorem booking_conflict_check:
  "(code (fst (createBooking now c uid b)) = 400
      \<longleftrightarrow> (\<exists>e\<in>set c. b_user (snd e) = uid \<and> matches (bb_date b) (b_date (snd e))
                    \<and> matches (bb_startTime b) (b_startTime (snd e))
                    \<and> b_status (snd e) \<noteq> Cancelled))
   \<and> (plain (bb_date b) \<and> plain (bb_startTime b) \<longrightarrow>
        (code (fst (createBooking now c uid b)) = 400
           \<longleftrightarrow> (\<exists>e\<in>set c. b_user (snd e) = uid \<and> Plain (b_date (snd e)) = bb_date b
                         \<and> Plain (b_startTime (snd e)) = bb_startTime b
                         \<and> b_status (snd e) \<noteq> Cancelled)))
   \<and> (code (fst (createBooking now c uid b)) = 400 \<longrightarrow>
        createBooking now c uid b =
          (Reply 400 False (Some ''You already have a booking at this time'') None, c))
   \<and> (code (fst (createBooking now c uid b)) = 201 \<longrightarrow>
        createBooking now' (snd (createBooking now c uid b)) uid b =
          (Reply 400 False (Some ''You already have a booking at this time'') None,
           snd (createBooking now c uid b))
        \<and> (\<exists>d t. bb_date b = Plain d \<and> bb_startTime b = Plain t
              \<and> length (active_at c uid d t) = 0
              \<and> length (active_at (snd (createBooking now c uid b)) uid d t) = 1))"
proof -
  have iff: "code (fst (createBooking now c uid b)) = 400
      \<longleftrightarrow> (\<exists>e\<in>set c. b_user (snd e) = uid \<and> matches (bb_date b) (b_date (snd e))
                    \<and> matches (bb_startTime b) (b_startTime (snd e))
                    \<and> b_status (snd e) \<noteq> Cancelled)"
    using createBooking_conflict [of now c uid b] by (simp add: slot_taken_def)
  have exact: "code (fst (createBooking now c uid b)) = 400
           \<longleftrightarrow> (\<exists>e\<in>set c. b_user (snd e) = uid \<and> Plain (b_date (snd e)) = bb_date b
                         \<and> Plain (b_startTime (snd e)) = bb_startTime b
                         \<and> b_status (snd e) \<noteq> Cancelled)"
    if "plain (bb_date b)" "plain (bb_startTime b)"
    unfolding iff using that by (simp add: matches_plain)
  have twice: "createBooking now' (snd (createBooking now c uid b)) uid b =
          (Reply 400 False (Some ''You already have a booking at this time'') None,
           snd (createBooking now c uid b))
        \<and> (\<exists>d t. bb_date b = Plain d \<and> bb_startTime b = Plain t
              \<and> length (active_at c uid d t) = 0
              \<and> length (active_at (snd (createBooking now c uid b)) uid d t) = 1)"
    if ok: "code (fst (createBooking now c uid b)) = 201"
  proof -
    from createBooking_accepted [OF ok] obtain bk where
      bk: "new_booking now uid b = Some bk"
      and run: "createBooking now c uid b = (Reply 201 True None (Some bk), insert_new c bk)"
      and free: "find (\<lambda>e. slot_taken uid (bb_date b) (bb_startTime b) (snd e)) c = None"
      by blast
    from new_booking_slot [OF bk] have slot: "bb_date b = Plain (b_date bk)"
      "bb_startTime b = Plain (b_startTime bk)" "b_user bk = uid" "b_status bk = Confirmed"
      by simp_all
    let ?c1 = "insert_new c bk"
    have taken: "slot_taken uid (bb_date b) (bb_startTime b) bk"
      using slot by (simp add: slot_taken_def matches_def)
    have "\<exists>e\<in>set ?c1. slot_taken uid (bb_date b) (bb_startTime b) (snd e)"
      using taken by (auto simp: insert_new_def)
    then have "code (fst (createBooking now' ?c1 uid b)) = 400"
      by (simp add: createBooking_conflict)
    then have second: "createBooking now' ?c1 uid b =
        (Reply 400 False (Some ''You already have a booking at this time'') None, ?c1)"
      by (rule createBooking_rejected)
    have none: "active_at c uid (b_date bk) (b_startTime bk) = []"
      using free slot by (auto simp: active_at_def find_None_iff filter_empty_conv)
    have one: "active_at ?c1 uid (b_date bk) (b_startTime bk) = [(fresh_id c, bk)]"
      using none taken slot by (simp add: active_at_def insert_new_def)
    from second none one slot show ?thesis by (simp add: run)
  qed
  from iff exact createBooking_rejected [of now c uid b] twice show ?thesis by blast
qed

theorem booking_conflict_check_witness:
  "plain (bb_date sample_booking_body) \<and> plain (bb_startTime sample_booking_body)
   \<and> createBooking 0 [] 7 sample_booking_body = (Reply 201 True None (Some sample_booking), [(1, sample_booking)])
   \<and> createBooking 5 [(1, sample_booking)] 7 sample_booking_body =
       (Reply 400 False (Some ''You already have a booking at this time'') None, [(1, sample_booking)])
   \<and> length (active_at [(1, sample_booking)] 7 1748736000000 ''10:00'') = 1
   \<and> code (fst (createBooking 5 [(1, sample_booking\<lparr>b_status := Cancelled\<rparr>)] 7 sample_booking_body)) \<noteq> 400"
proof -
  have pl: "plain (bb_date sample_booking_body)" "plain (bb_startTime sample_booking_body)"
    by (simp_all add: plain_def sample_booking_body_def)
  have first: "createBooking 0 [] 7 sample_booking_body =
      (Reply 201 True None (Some sample_booking), [(1, sample_booking)])"
    by (simp add: createBooking_def new_booking_def sample_booking_body_def sample_booking_def
        required_value_def optional_field_def insert_new_def fresh_id_def throws_def)
  have c201: "code (fst (createBooking 0 [] 7 sample_booking_body)) = 201"
    by (simp add: first)
  from booking_conflict_check [of 0 "[]" 7 sample_booking_body 5] c201
  have second: "createBooking 5 (snd (createBooking 0 [] 7 sample_booking_body)) 7 sample_booking_body =
      (Reply 400 False (Some ''You already have a booking at this time'') None,
       snd (createBooking 0 [] 7 sample_booking_body))"
    and "\<exists>d t. bb_date sample_booking_body = Plain d \<and> bb_startTime sample_booking_body = Plain t
          \<and> length (active_at [] 7 d t) = 0
          \<and> length (active_at (snd (createBooking 0 [] 7 sample_booking_body)) 7 d t) = 1"
    by blast+
  then have "\<exists>d t. bb_date sample_booking_body = Plain d \<and> bb_startTime sample_booking_body = Plain t
          \<and> length (active_at [(1, sample_booking)] 7 d t) = 1"
    unfolding first snd_conv by blast
  then have count: "length (active_at [(1, sample_booking)] 7 1748736000000 ''10:00'') = 1"
    by (auto simp: sample_booking_body_def)
  have "\<not> (\<exists>e\<in>set [(1::nat, sample_booking\<lparr>b_status := Cancelled\<rparr>)].
      b_user (snd e) = 7 \<and> Plain (b_date (snd e)) = bb_date sample_booking_body
      \<and> Plain (b_startTime (snd e)) = bb_startTime sample_booking_body
      \<and> b_status (snd e) \<noteq> Cancelled)"
    by simp
  with booking_conflict_check [of 5 "[(1, sample_booking\<lparr>b_status := Cancelled\<rparr>)]" 7
        sample_booking_body 5] pl
  have "code (fst (createBooking 5 [(1, sample_booking\<lparr>b_status := Cancelled\<rparr>)] 7
      sample_booking_body)) \<noteq> 400"
    by blast
  with pl first second count show ?thesis by simp
qed

text \<open>
  C7 as stated fails for a body that holds query operators: with \<open>date\<close> given as
  \<open>{ "$gt": 0 }\<close> and \<open>startTime\<close> as \<open>{ "$ne": "zzz" }\<close>, the owner's one booking, on
  1 June 2025 at 10:00, matches the filter and the request is answered 400, though the
  request names no date and start time and so no booking is at the same pair.
\<close>

theorem booking_operator_counterexample:
  "createBooking 5 [(1, sample_booking)] 7 operator_booking_body =
     (Reply 400 False (Some ''You already have a booking at this time'') None, [(1, sample_booking)])
   \<and> Plain (b_date sample_booking) \<noteq> bb_date operator_booking_body
   \<and> Plain (b_startTime sample_booking) \<noteq> bb_startTime operator_booking_body
   \<and> new_booking 5 7 operator_booking_body = None"
  by (simp add: createBooking_def operator_booking_body_def sample_booking_def slot_taken_def
      matches_def throws_def new_booking_def required_value_def)

text \<open>
  C8. For a stored booking, a cancel request of an identity other than its owner is
  answered 401 \<open>Not authorized to cancel this booking\<close> and leaves the collection as
  it is, so the status and every other field of the booking are unchanged. A request of
  the owner sets the status to \<open>cancelled\<close>, keeps the other fields and keeps every
  other booking. Whenever a cancel request changes what is stored under an id, that id
  is the one of the request, the requester is the owner of the booking, and the change
  is the status.
\<close>

theorem cancel_requires_owner:
  "(findById c i = Some b \<and> b_user b \<noteq> uid \<longrightarrow>
      cancelBooking c uid i =
        (Reply 401 False (Some ''Not authorized to cancel this booking'') None, c))
   \<and> (findById c i = Some b \<and> b_user b = uid \<longrightarrow>
        fst (cancelBooking c uid i) = Reply 200 True None (Some (b\<lparr>b_status := Cancelled\<rparr>))
        \<and> findById (snd (cancelBooking c uid i)) i = Some (b\<lparr>b_status := Cancelled\<rparr>)
        \<and> (\<forall>k. k \<noteq> i \<longrightarrow> findById (snd (cancelBooking c uid i)) k = findById c k))
   \<and> (findById (snd (cancelBooking c uid i)) j \<noteq> findById c j \<longrightarrow>
        j = i \<and> (\<exists>b0. findById c i = Some b0 \<and> b_user b0 = uid
                    \<and> findById (snd (cancelBooking c uid i)) i = Some (b0\<lparr>b_status := Cancelled\<rparr>)))"
proof -
  have other: "cancelBooking c uid i =
        (Reply 401 False (Some ''Not authorized to cancel this booking'') None, c)"
    if "findById c i = Some b" "b_user b \<noteq> uid"
    using that by (simp add: cancelBooking_def)
  have owner: "fst (cancelBooking c uid i) = Reply 200 True None (Some (b\<lparr>b_status := Cancelled\<rparr>))
        \<and> findById (snd (cancelBooking c uid i)) i = Some (b\<lparr>b_status := Cancelled\<rparr>)
        \<and> (\<forall>k. k \<noteq> i \<longrightarrow> findById (snd (cancelBooking c uid i)) k = findById c k)"
    if "findById c i = Some b" "b_user b = uid"
    using that by (simp add: cancelBooking_def Let_def findById_def update_conv')
  have change: "j = i \<and> (\<exists>b0. findById c i = Some b0 \<and> b_user b0 = uid
                    \<and> findById (snd (cancelBooking c uid i)) i = Some (b0\<lparr>b_status := Cancelled\<rparr>))"
    if diff: "findById (snd (cancelBooking c uid i)) j \<noteq> findById c j"
  proof (cases "findById c i")
    case None
    with diff show ?thesis by (simp add: cancelBooking_def)
  next
    case (Some b0)
    show ?thesis
    proof (cases "b_user b0 = uid")
      case False
      with diff Some show ?thesis by (simp add: cancelBooking_def)
    next
      case True
      have upd: "findById (snd (cancelBooking c uid i)) k =
          (if k = i then Some (b0\<lparr>b_status := Cancelled\<rparr>) else findById c k)" for k
        using Some True by (simp add: cancelBooking_def Let_def findById_def update_conv')
      from diff upd [of j] have "j = i" by (auto split: if_splits)
      with Some True upd [of i] show ?thesis by simp
    qed
  qed
  from other owner change show ?thesis by blast
qed

theorem cancel_requires_owner_witness:
  "findById [(1, sample_booking)] 1 = Some sample_booking
   \<and> b_user sample_booking \<noteq> 8
   \<and> cancelBooking [(1, sample_booking)] 8 1 =
       (Reply 401 False (Some ''Not authorized to cancel this booking'') None, [(1, sample_booking)])
   \<and> b_user sample_booking = 7
   \<and> fst (cancelBooking [(1, sample_booking)] 7 1) =
       Reply 200 True None (Some (sample_booking\<lparr>b_status := Cancelled\<rparr>))
   \<and> findById (snd (cancelBooking [(1, sample_booking)] 7 1)) 1 =
       Some (sample_booking\<lparr>b_status := Cancelled\<rparr>)
   \<and> findById (snd (cancelBooking [(1, sample_booking)] 7 1)) 1 \<noteq> findById [(1, sample_booking)] 1"
proof -
  have f: "findById [(1, sample_booking)] 1 = Some sample_booking"
    by (simp add: findById_def)
  have u: "b_user sample_booking \<noteq> 8" "b_user sample_booking = 7"
    by (simp_all add: sample_booking_def)
  have d: "Some (sample_booking\<lparr>b_status := Cancelled\<rparr>) \<noteq> Some sample_booking"
    by (simp add: sample_booking_def)
  from cancel_requires_owner [of "[(1, sample_booking)]" 1 sample_booking 8 1] f u(1)
  have other: "cancelBooking [(1, sample_booking)] 8 1 =
       (Reply 401 False (Some ''Not authorized to cancel this booking'') None, [(1, sample_booking)])"
    by blast
  from cancel_requires_owner [of "[(1, sample_booking)]" 1 sample_booking 7 1] f u(2)
  have owner: "fst (cancelBooking [(1, sample_booking)] 7 1) =
       Reply 200 True None (Some (sample_booking\<lparr>b_status := Cancelled\<rparr>))"
    "findById (snd (cancelBooking [(1, sample_booking)] 7 1)) 1 =
       Some (sample_booking\<lparr>b_status := Cancelled\<rparr>)"
    by blast+
  have "findById (snd (cancelBooking [(1, sample_booking)] 7 1)) 1 \<noteq> findById [(1, sample_booking)] 1"
    unfolding owner(2) f by (rule d)
  with f u other owner show ?thesis by blast
qed

section \<open>The auth guard\<close>




section \<open>The notification scan: selection and fan-out\<close>

lemma sendToAll_targets:
  "map a_target (sendToAll env payload subs sent) =
     map a_target sent @ map (\<lambda>sub. (endpoint sub, keys sub, payload)) subs"
  by (induction subs arbitrary: sent) (simp_all add: a_target_def)

lemma sendToAll_delivered:
  assumes "\<forall>k < length sent. a_delivered (sent ! k) = delivers env k"
  shows "\<forall>k < length (sendToAll env payload subs sent).
           a_delivered (sendToAll env payload subs sent ! k) = delivers env k"
  using assms
proof (induction subs arbitrary: sent)
  case Nil
  then show ?case by simp
next
  case (Cons sub subs)
  let ?a = "\<lparr>a_endpoint = endpoint sub, a_keys = keys sub, a_payload = payload,
             a_delivered = delivers env (length sent)\<rparr>"
  have step: "sendToAll env payload (sub # subs) sent = sendToAll env payload subs (sent @ [?a])"
    by simp
  have "\<forall>k < length (sent @ [?a]). a_delivered ((sent @ [?a]) ! k) = delivers env k"
    using Cons.prems by (auto simp: nth_append less_Suc_eq)
  then show ?case
    unfolding step by (rule Cons.IH)
qed

lemma notifyAll_targets:
  assumes "cache_ok users m"
  shows "cache_ok users (fst (notifyAll env users payload docs (m, sent)))
     \<and> map a_target (snd (notifyAll env users payload docs (m, sent))) =
         map a_target sent @ concat (map (due_for users payload) docs)"
  using assms
proof (induction docs arbitrary: m sent)
  case Nil
  then show ?case by simp
next
  case (Cons doc docs)
  let ?uid = "d_user doc"
  let ?m' = "case m ?uid of None \<Rightarrow> m(?uid \<mapsto> enabledSubscriptions users ?uid) | Some cached \<Rightarrow> m"
  let ?subs = "case ?m' ?uid of None \<Rightarrow> [] | Some cached \<Rightarrow> cached"
  have ok: "cache_ok users ?m'"
    using Cons.prems by (auto simp: cache_ok_def split: option.splits)
  have subs: "?subs = enabledSubscriptions users ?uid"
    using Cons.prems by (auto simp: cache_ok_def split: option.splits)
  have step: "notifyAll env users payload (doc # docs) (m, sent) =
      notifyAll env users payload docs (?m', sendToAll env (payload doc) ?subs sent)"
    by (simp add: Let_def)
  show ?case
    unfolding step using Cons.IH [OF ok, of "sendToAll env (payload doc) ?subs sent"]
    by (simp add: sendToAll_targets subs due_for_def)
qed

lemma notifyAll_delivered:
  assumes "\<forall>k < length sent. a_delivered (sent ! k) = delivers env k"
  shows "\<forall>k < length (snd (notifyAll env users payload docs (m, sent))).
           a_delivered (snd (notifyAll env users payload docs (m, sent)) ! k) = delivers env k"
  using assms
proof (induction docs arbitrary: m sent)
  case Nil
  then show ?case by simp
next
  case (Cons doc docs)
  let ?uid = "d_user doc"
  let ?m' = "case m ?uid of None \<Rightarrow> m(?uid \<mapsto> enabledSubscriptions users ?uid) | Some cached \<Rightarrow> m"
  let ?subs = "case ?m' ?uid of None \<Rightarrow> [] | Some cached \<Rightarrow> cached"
  have step: "notifyAll env users payload (doc # docs) (m, sent) =
      notifyAll env users payload docs (?m', sendToAll env (payload doc) ?subs sent)"
    by (simp add: Let_def)
  show ?case
    unfolding step by (rule Cons.IH) (rule sendToAll_delivered [OF Cons.prems])
qed

lemma soonThreshold_Some:
  "soonThreshold env = Some th \<longleftrightarrow>
     (\<exists>days. soonDays env = Some days \<and> th = scan_dateNow env + days * msPerDay \<and> \<bar>th\<bar> \<le> maxTime)"
  by (auto simp: soonThreshold_def Let_def msPerDay_def mult.commute split: option.splits)

lemma soonThreshold_None:
  "soonThreshold env = None \<longleftrightarrow>
     soonDays env = None
     \<or> (\<exists>days. soonDays env = Some days \<and> maxTime < \<bar>scan_dateNow env + days * msPerDay\<bar>)"
  by (auto simp: soonThreshold_def Let_def msPerDay_def mult.commute split: option.splits)

lemma scan_aborts:
  assumes "soonThreshold env = None"
  shows "expiringSoonDocs env docs = None" and "notifyExpiredDocuments env docs users = []"
  using assms by (simp_all add: notifyExpiredDocuments_def expiringSoonDocs_def)

lemma scan_targets:
  assumes "expiringSoonDocs env docs = Some soon"
  shows "map a_target (notifyExpiredDocuments env docs users) =
     due env users (expiredDocs env docs) soon"
proof -
  let ?r = "notifyAll env users expiredPayload (map snd (expiredDocs env docs)) (Map.empty, [])"
  have e: "cache_ok users Map.empty" by (simp add: cache_ok_def)
  from notifyAll_targets [OF e, of env expiredPayload "map snd (expiredDocs env docs)" "[]"]
  have r: "cache_ok users (fst ?r)"
    "map a_target (snd ?r) = concat (map (due_for users expiredPayload) (map snd (expiredDocs env docs)))"
    by simp_all
  from notifyAll_targets [OF r(1), of env "soonPayload env" "map snd soon" "snd ?r"]
  show ?thesis
    by (simp add: notifyExpiredDocuments_def Let_def due_def r(2) assms)
qed

lemma scan_delivered:
  "\<forall>k < length (notifyExpiredDocuments env docs users).
     a_delivered (notifyExpiredDocuments env docs users ! k) = delivers env k"
proof (cases "expiringSoonDocs env docs")
  case None
  then show ?thesis by (simp add: notifyExpiredDocuments_def)
next
  case (Some soon)
  let ?r = "notifyAll env users expiredPayload (map snd (expiredDocs env docs)) (Map.empty, [])"
  have "\<forall>k < length (snd ?r). a_delivered (snd ?r ! k) = delivers env k"
    by (rule notifyAll_delivered) simp
  then have "\<forall>k < length (snd (notifyAll env users (soonPayload env) (map snd soon) (fst ?r, snd ?r))).
      a_delivered (snd (notifyAll env users (soonPayload env) (map snd soon) (fst ?r, snd ?r)) ! k)
        = delivers env k"
    by (rule notifyAll_delivered)
  then show ?thesis
    by (simp add: notifyExpiredDocuments_def Let_def Some)
qed

lemma selection_ignores_delivers:
  "expiredDocs (env\<lparr>delivers := f\<rparr>) docs = expiredDocs env docs"
  "expiringSoonDocs (env\<lparr>delivers := f\<rparr>) docs = expiringSoonDocs env docs"
  "soonPayload (env\<lparr>delivers := f\<rparr>) = soonPayload env"
  by (simp_all add: expiredDocs_def expiringSoonDocs_def soonThreshold_def soonPayload_def
      fun_eq_iff Let_def split: option.splits)

text \<open>
  C6, as the code has it. In one scan, \<open>now\<close> is the clock reading at its start and
  \<open>dateNow\<close> the second reading, taken after the first query when the threshold is
  computed. The documents that the first query selects for the \<open>expired\<close> message are
  exactly those with \<open>expiryDate \<le> now\<close>. The threshold is an Invalid Date exactly when
  the configured number of days is not a number or \<open>dateNow\<close> plus that many days is
  outside the range of a date; then the second query rejects and the scan makes no call
  at all. Otherwise the documents selected for the \<open>expiring soon\<close> message are exactly
  those with \<open>now < expiryDate \<le> dateNow + soonDays\<close> days, the two selections are
  disjoint, and the calls of \<open>sendNotification\<close> that the scan makes are, in order, one
  for every selected document and every enabled subscription of its owner, first for the
  expired and then for the expiring documents; they are the same calls whichever of them
  fail, so a failed delivery neither ends the scan nor takes a call away from another
  subscription or document.
\<close>

theorem scan_selection_and_fanout:
  "set (expiredDocs env docs) = {e \<in> set docs. d_expiryDate (snd e) \<le> scan_now env}
   \<and> (soonThreshold env = None \<longleftrightarrow>
        soonDays env = None
        \<or> (\<exists>days. soonDays env = Some days \<and> maxTime < \<bar>scan_dateNow env + days * msPerDay\<bar>))
   \<and> (soonThreshold env = None \<longrightarrow>
        expiringSoonDocs env docs = None \<and> notifyExpiredDocuments env docs users = [])
   \<and> (soonDays env = Some days \<and> \<bar>scan_dateNow env + days * msPerDay\<bar> \<le> maxTime \<longrightarrow>
        (\<exists>soon. expiringSoonDocs env docs = Some soon
           \<and> set soon =
               {e \<in> set docs. scan_now env < d_expiryDate (snd e)
                  \<and> d_expiryDate (snd e) \<le> scan_dateNow env + days * msPerDay}
           \<and> set (expiredDocs env docs) \<inter> set soon = {}
           \<and> map a_target (notifyExpiredDocuments env docs users) =
               concat (map (\<lambda>e. map (\<lambda>sub. (endpoint sub, keys sub, expiredPayload (snd e)))
                                   (enabledSubscriptions users (d_user (snd e))))
                         (expiredDocs env docs))
               @ concat (map (\<lambda>e. map (\<lambda>sub. (endpoint sub, keys sub, soonPayload env (snd e)))
                                     (enabledSubscriptions users (d_user (snd e))))
                           soon)
           \<and> map a_target (notifyExpiredDocuments (env\<lparr>delivers := f\<rparr>) docs users) =
               map a_target (notifyExpiredDocuments env docs users)))
   \<and> (\<forall>k < length (notifyExpiredDocuments env docs users).
        a_delivered (notifyExpiredDocuments env docs users ! k) = delivers env k)"
proof -
  have sel1: "set (expiredDocs env docs) = {e \<in> set docs. d_expiryDate (snd e) \<le> scan_now env}"
    by (simp add: expiredDocs_def)
  have abort: "expiringSoonDocs env docs = None \<and> notifyExpiredDocuments env docs users = []"
    if "soonThreshold env = None"
    using scan_aborts [OF that] by simp
  have valid: "\<exists>soon. expiringSoonDocs env docs = Some soon
           \<and> set soon =
               {e \<in> set docs. scan_now env < d_expiryDate (snd e)
                  \<and> d_expiryDate (snd e) \<le> scan_dateNow env + days * msPerDay}
           \<and> set (expiredDocs env docs) \<inter> set soon = {}
           \<and> map a_target (notifyExpiredDocuments env docs users) =
               concat (map (\<lambda>e. map (\<lambda>sub. (endpoint sub, keys sub, expiredPayload (snd e)))
                                   (enabledSubscriptions users (d_user (snd e))))
                         (expiredDocs env docs))
               @ concat (map (\<lambda>e. map (\<lambda>sub. (endpoint sub, keys sub, soonPayload env (snd e)))
                                     (enabledSubscriptions users (d_user (snd e))))
                           soon)
           \<and> map a_target (notifyExpiredDocuments (env\<lparr>delivers := f\<rparr>) docs users) =
               map a_target (notifyExpiredDocuments env docs users)"
    if d: "soonDays env = Some days" and r: "\<bar>scan_dateNow env + days * msPerDay\<bar> \<le> maxTime"
  proof -
    define th where "th = scan_dateNow env + days * msPerDay"
    define soon where "soon = filter (\<lambda>e. scan_now env < d_expiryDate (snd e)
        \<and> d_expiryDate (snd e) \<le> th) docs"
    have t: "soonThreshold env = Some th"
      using d r by (simp add: soonThreshold_Some th_def)
    then have q: "expiringSoonDocs env docs = Some soon"
      by (simp add: expiringSoonDocs_def soon_def)
    have sel2: "set soon = {e \<in> set docs. scan_now env < d_expiryDate (snd e)
        \<and> d_expiryDate (snd e) \<le> scan_dateNow env + days * msPerDay}"
      by (simp add: soon_def th_def)
    have dis: "set (expiredDocs env docs) \<inter> set soon = {}"
      unfolding sel1 sel2 by auto
    have calls: "map a_target (notifyExpiredDocuments env docs users) =
        concat (map (\<lambda>e. map (\<lambda>sub. (endpoint sub, keys sub, expiredPayload (snd e)))
                            (enabledSubscriptions users (d_user (snd e))))
                  (expiredDocs env docs))
        @ concat (map (\<lambda>e. map (\<lambda>sub. (endpoint sub, keys sub, soonPayload env (snd e)))
                              (enabledSubscriptions users (d_user (snd e))))
                    soon)"
      by (simp add: scan_targets [OF q] due_def due_for_def comp_def)
    have q': "expiringSoonDocs (env\<lparr>delivers := f\<rparr>) docs = Some soon"
      by (simp add: selection_ignores_delivers q)
    have same: "map a_target (notifyExpiredDocuments (env\<lparr>delivers := f\<rparr>) docs users) =
        map a_target (notifyExpiredDocuments env docs users)"
      by (simp add: scan_targets [OF q] scan_targets [OF q'] due_def selection_ignores_delivers)
    from q sel2 dis calls same show ?thesis by blast
  qed
  from sel1 soonThreshold_None [of env] abort valid scan_delivered [of env docs users]
  show ?thesis by blast
qed

lemma sample_scan_selection:
  "expiredDocs sample_scan sample_docs = [(1, sample_doc)]"
  "expiringSoonDocs sample_scan sample_docs =
     Some [(2, sample_doc\<lparr>d_number := ''B2'', d_expiryDate := 30 * msPerDay + 3\<rparr>)]"
  by (simp_all add: expiredDocs_def expiringSoonDocs_def soonThreshold_def sample_scan_def
      sample_docs_def sample_doc_def msPerDay_def maxTime_def)

theorem scan_selection_and_fanout_witness:
  "map a_target (notifyExpiredDocuments sample_scan sample_docs [(7, sample_subscriber)]) =
     [(''https://push/a'', ''ka'', expiredPayload sample_doc),
      (''https://push/c'', ''kc'', expiredPayload sample_doc),
      (''https://push/a'', ''ka'',
         soonPayload sample_scan (sample_doc\<lparr>d_number := ''B2'', d_expiryDate := 30 * msPerDay + 3\<rparr>)),
      (''https://push/c'', ''kc'',
         soonPayload sample_scan (sample_doc\<lparr>d_number := ''B2'', d_expiryDate := 30 * msPerDay + 3\<rparr>))]
   \<and> \<not> a_delivered (notifyExpiredDocuments sample_scan sample_docs [(7, sample_subscriber)] ! 0)
   \<and> map a_target (notifyExpiredDocuments (sample_scan\<lparr>delivers := (\<lambda>k. k \<noteq> 1)\<rparr>) sample_docs
        [(7, sample_subscriber)]) =
      map a_target (notifyExpiredDocuments sample_scan sample_docs [(7, sample_subscriber)])
   \<and> soonThreshold (sample_scan\<lparr>soonDays := None\<rparr>) = None
   \<and> notifyExpiredDocuments (sample_scan\<lparr>soonDays := None\<rparr>) sample_docs [(7, sample_subscriber)] = []"
proof -
  let ?users = "[(7, sample_subscriber)]"
  note inst = scan_selection_and_fanout [of sample_scan sample_docs ?users 30 "\<lambda>k. k \<noteq> 1"]
  have d: "soonDays sample_scan = Some 30" by (simp add: sample_scan_def)
  have r: "\<bar>scan_dateNow sample_scan + 30 * msPerDay\<bar> \<le> maxTime"
    by (simp add: sample_scan_def msPerDay_def maxTime_def)
  from inst d r obtain soon where
    q: "expiringSoonDocs sample_scan sample_docs = Some soon"
    and calls0: "map a_target (notifyExpiredDocuments sample_scan sample_docs ?users) =
        concat (map (\<lambda>e. map (\<lambda>sub. (endpoint sub, keys sub, expiredPayload (snd e)))
                            (enabledSubscriptions ?users (d_user (snd e))))
                  (expiredDocs sample_scan sample_docs))
        @ concat (map (\<lambda>e. map (\<lambda>sub. (endpoint sub, keys sub, soonPayload sample_scan (snd e)))
                              (enabledSubscriptions ?users (d_user (snd e))))
                    soon)"
    and same: "map a_target (notifyExpiredDocuments (sample_scan\<lparr>delivers := (\<lambda>k. k \<noteq> 1)\<rparr>)
        sample_docs ?users) = map a_target (notifyExpiredDocuments sample_scan sample_docs ?users)"
    by blast
  have soon: "soon = [(2, sample_doc\<lparr>d_number := ''B2'', d_expiryDate := 30 * msPerDay + 3\<rparr>)]"
    using q by (simp add: sample_scan_selection)
  have subs: "enabledSubscriptions ?users 7 =
      [\<lparr>endpoint = ''https://push/a'', keys = ''ka'', enabled = True\<rparr>,
       \<lparr>endpoint = ''https://push/c'', keys = ''kc'', enabled = True\<rparr>]"
    by (simp add: enabledSubscriptions_def findById_def sample_subscriber_def)
  have owner: "d_user sample_doc = 7" by (simp add: sample_doc_def)
  have calls: "map a_target (notifyExpiredDocuments sample_scan sample_docs ?users) =
     [(''https://push/a'', ''ka'', expiredPayload sample_doc),
      (''https://push/c'', ''kc'', expiredPayload sample_doc),
      (''https://push/a'', ''ka'',
         soonPayload sample_scan (sample_doc\<lparr>d_number := ''B2'', d_expiryDate := 30 * msPerDay + 3\<rparr>)),
      (''https://push/c'', ''kc'',
         soonPayload sample_scan (sample_doc\<lparr>d_number := ''B2'', d_expiryDate := 30 * msPerDay + 3\<rparr>))]"
    unfolding calls0 soon by (simp add: sample_scan_selection subs owner)
  then have "length (notifyExpiredDocuments sample_scan sample_docs ?users) = 4"
    using length_map [of a_target "notifyExpiredDocuments sample_scan sample_docs ?users"] by simp
  with inst have "a_delivered (notifyExpiredDocuments sample_scan sample_docs ?users ! 0)
      = delivers sample_scan 0"
    by simp
  then have failed: "\<not> a_delivered (notifyExpiredDocuments sample_scan sample_docs ?users ! 0)"
    by (simp add: sample_scan_def)
  have n: "soonDays (sample_scan\<lparr>soonDays := None\<rparr>) = None" by simp
  from scan_selection_and_fanout [of "sample_scan\<lparr>soonDays := None\<rparr>" sample_docs ?users 30
      "\<lambda>k. k \<noteq> 1"] n
  have nan: "soonThreshold (sample_scan\<lparr>soonDays := None\<rparr>) = None"
    "notifyExpiredDocuments (sample_scan\<lparr>soonDays := None\<rparr>) sample_docs ?users = []"
    by blast+
  from calls failed same nan show ?thesis by simp
qed

text \<open>
  C6 as stated fails for the upper end of the window: in a scan that starts at the epoch
  and computes the threshold five milliseconds later, a document that expires 30 days
  and 3 milliseconds after the epoch is selected as expiring soon, though its expiry
  date is after \<open>now\<close> plus the window of 30 days. And in a scan whose configured number
  of days is not a number, the document that expired at the epoch is selected by the
  first query, its owner has enabled subscriptions, and no call is made.
\<close>

theorem scan_window_counterexample:
  "expiringSoonDocs sample_scan sample_docs =
     Some [(2, sample_doc\<lparr>d_number := ''B2'', d_expiryDate := 30 * msPerDay + 3\<rparr>)]
   \<and> soonDays sample_scan = Some 30
   \<and> \<not> d_expiryDate (sample_doc\<lparr>d_number := ''B2'', d_expiryDate := 30 * msPerDay + 3\<rparr>)
        \<le> scan_now sample_scan + 30 * msPerDay
   \<and> expiredDocs (sample_scan\<lparr>soonDays := None\<rparr>) sample_docs = [(1, sample_doc)]
   \<and> d_expiryDate sample_doc \<le> scan_now (sample_scan\<lparr>soonDays := None\<rparr>)
   \<and> enabledSubscriptions [(7, sample_subscriber)] (d_user sample_doc) \<noteq> []
   \<and> notifyExpiredDocuments (sample_scan\<lparr>soonDays := None\<rparr>) sample_docs [(7, sample_subscriber)] = []"
  by (simp add: sample_scan_selection)
    (simp add: sample_scan_def expiredDocs_def sample_docs_def sample_doc_def msPerDay_def
      enabledSubscriptions_def findById_def sample_subscriber_def notifyExpiredDocuments_def
      expiringSoonDocs_def soonThreshold_def)

end
